theory Spec2Isabelle
  imports Complex_Main "HOL-Library.AList" "HOL-Library.Sublist" "HOL-Library.Product_Lexorder"
begin

section \<open>Python values at the boundaries of the program\<close>

text \<open>
  The program is Python. Its numbers are floats; they are modelled as exact reals, so
  rounding is outside the model, while the IEEE special values that decide a claim
  (division by zero, NaN) are written out where they arise (type \<open>fl\<close> below).
  Values decoded from JSON (the configuration, the broker's market metadata) are values
  of \<open>json\<close>; a JSON object is an association list, looked up with \<open>map_of\<close>.
  An exception is the left summand of a result.
\<close>

datatype py_error =
    ValueError
  | TypeError
  | AttributeError
  | IndexError
  | KeyError
  | RuntimeError string
  | HTTPError int string

datatype json =
    JNull
  | JBool bool
  | JInt int
  | JFloat real
  | JStr string
  | JArr "json list"
  | JObj "(string \<times> json) list"

text \<open>Python truthiness, as used by \<open>x or default\<close> and \<open>if x\<close>.\<close>

fun truthy :: "json \<Rightarrow> bool" where
  "truthy JNull = False"
| "truthy (JBool b) = b"
| "truthy (JInt i) = (i \<noteq> 0)"
| "truthy (JFloat r) = (r \<noteq> 0)"
| "truthy (JStr s) = (s \<noteq> [])"
| "truthy (JArr xs) = (xs \<noteq> [])"
| "truthy (JObj kv) = (kv \<noteq> [])"

definition py_or :: "json \<Rightarrow> json \<Rightarrow> json" where
  "py_or a b = (if truthy a then a else b)"

text \<open>\<open>d.get(k, default)\<close>: an AttributeError when \<open>d\<close> is not a dict.\<close>

fun dget :: "json \<Rightarrow> string \<Rightarrow> json \<Rightarrow> py_error + json" where
  "dget (JObj kv) k dflt = Inr (case map_of kv k of None \<Rightarrow> dflt | Some v \<Rightarrow> v)"
| "dget _ k dflt = Inl AttributeError"

text \<open>
  The library functions the program calls on strings and on the clock are parameters of
  the model: \<open>float(s)\<close>, \<open>int(s)\<close>, \<open>datetime.fromisoformat\<close>, \<open>ZoneInfo\<close>,
  \<open>astimezone\<close>, \<open>isoformat\<close>, the formatting of numbers, \<open>json.dumps\<close> and
  \<open>str\<close>. A parser
  returns \<open>None\<close> where Python raises. An instant is a count of microseconds since the
  epoch; a local date and time is a \<open>wallclock\<close>.
\<close>

record wallclock =
  wc_day :: int
  wc_hour :: int
  wc_minute :: int
  wc_second :: int
  wc_usec :: int

datatype zone = UTC | Zone string

record pylib =
  float_of_str :: "string \<Rightarrow> real option"
  int_of_str :: "string \<Rightarrow> int option"
  fromisoformat :: "string \<Rightarrow> int option"
  zoneinfo_known :: "string \<Rightarrow> bool"
  astimezone :: "zone \<Rightarrow> int \<Rightarrow> wallclock"
  isoformat_local :: "zone \<Rightarrow> int \<Rightarrow> string"
  isoformat_utc :: "int \<Rightarrow> string"
  strftime_ymd :: "int \<Rightarrow> string"
  fmt_fixed :: "nat \<Rightarrow> real \<Rightarrow> string"
  str_float :: "real \<Rightarrow> string"
  str_int :: "int \<Rightarrow> string"
  json_dumps :: "json \<Rightarrow> string"
  py_str :: "json \<Rightarrow> string"

text \<open>\<open>int(x)\<close> and \<open>float(x)\<close> on a decoded value; \<open>int\<close> of a float truncates towards zero.\<close>

definition trunc :: "real \<Rightarrow> int" where
  "trunc r = (if r < 0 then \<lceil>r\<rceil> else \<lfloor>r\<rfloor>)"

fun py_int :: "pylib \<Rightarrow> json \<Rightarrow> py_error + int" where
  "py_int L (JInt i) = Inr i"
| "py_int L (JFloat r) = Inr (trunc r)"
| "py_int L (JBool b) = Inr (if b then 1 else 0)"
| "py_int L (JStr s) = (case int_of_str L s of None \<Rightarrow> Inl ValueError | Some i \<Rightarrow> Inr i)"
| "py_int L _ = Inl TypeError"

fun py_float :: "pylib \<Rightarrow> json \<Rightarrow> py_error + real" where
  "py_float L (JInt i) = Inr (of_int i)"
| "py_float L (JFloat r) = Inr r"
| "py_float L (JBool b) = Inr (if b then 1 else 0)"
| "py_float L (JStr s) = (case float_of_str L s of None \<Rightarrow> Inl ValueError | Some r \<Rightarrow> Inr r)"
| "py_float L _ = Inl TypeError"

text \<open>Sequencing of computations that may raise.\<close>

definition bindE :: "'e + 'a \<Rightarrow> ('a \<Rightarrow> 'e + 'b) \<Rightarrow> 'e + 'b" where
  "bindE m f = (case m of Inl e \<Rightarrow> Inl e | Inr v \<Rightarrow> f v)"

text \<open>
  \<open>str.upper\<close> on ASCII letters; \<open>str.split(sep)\<close> for a one-character separator.
  (Python's \<open>upper\<close> also maps letters outside ASCII, which no event name written
  by the program contains.)
\<close>

definition upper_char :: "char \<Rightarrow> char" where
  "upper_char c =
     (if 97 \<le> (of_char c :: nat) \<and> (of_char c :: nat) \<le> 122
      then char_of ((of_char c :: nat) - 32) else c)"

definition py_upper :: "string \<Rightarrow> string" where
  "py_upper s = map upper_char s"

fun split_on :: "char \<Rightarrow> string \<Rightarrow> string list" where
  "split_on sep [] = [[]]"
| "split_on sep (c # cs) =
     (if c = sep then [] # split_on sep cs
      else (case split_on sep cs of [] \<Rightarrow> [[c]] | w # ws \<Rightarrow> (c # w) # ws))"

section \<open>The trade ledger as a CSV file\<close>

text \<open>
  The ledger is a CSV file: a list of lines, each a list of cells, the first line being
  the header. \<open>csv.DictReader\<close> keys every later, non-blank line by the header: a
  header name met twice keeps its last column, a column the line does not reach reads
  \<open>None\<close>. A missing file is \<open>None\<close>.
\<close>

type_synonym csv_file = "string list list"
type_synonym row = "string \<Rightarrow> string option"

fun dict_row :: "string list \<Rightarrow> string list \<Rightarrow> row" where
  "dict_row [] cs k = None"
| "dict_row (h # hs) cs k =
     (if h = k \<and> k \<notin> set hs then (case cs of [] \<Rightarrow> None | c # _ \<Rightarrow> Some c)
      else dict_row hs (tl cs) k)"

definition dict_reader :: "csv_file \<Rightarrow> row list" where
  "dict_reader f =
     (case f of [] \<Rightarrow> [] | hdr # ls \<Rightarrow> map (dict_row hdr) (filter (\<lambda>l. l \<noteq> []) ls))"

text \<open>\<open>r.get(k) or ""\<close>\<close>

definition sget :: "row \<Rightarrow> string \<Rightarrow> string" where
  "sget r k = (case r k of None \<Rightarrow> [] | Some s \<Rightarrow> s)"

text \<open>
  The columns of the ledger (\<open>LOG_FIELDS\<close> of trade\_once.py), and a written line:
  \<open>{k: row.get(k, "") for k in LOG_FIELDS}\<close> in the order of the columns.
\<close>

definition LOG_FIELDS :: "string list" where
  "LOG_FIELDS =
     [''ts_utc'', ''run_id'', ''env'', ''live'', ''name'', ''epic'', ''resolution'',
      ''candle_count'', ''warmup_bars'', ''signal'', ''close'', ''sma20'', ''rsi14'',
      ''sentiment_label'', ''sentiment_score'', ''sentiment_reason'',
      ''rg_reason'', ''rg_meta_json'', ''rg2_reason'', ''rg2_meta_json'',
      ''risk_gbp'', ''stop_points'', ''limit_points'', ''value_per_point'', ''size_raw'',
      ''size_final'', ''eff_risk_gbp'', ''currency'',
      ''event'', ''status'', ''dealReference'', ''error'', ''payload_json'']"

definition line_of :: "string list \<Rightarrow> (string \<times> string) list \<Rightarrow> string list" where
  "line_of cols kv = map (\<lambda>k. case map_of kv k of None \<Rightarrow> [] | Some v \<Rightarrow> v) cols"

section \<open>risk\_guards.py\<close>

text \<open>
  The clock is read once per evaluation of a guard: \<open>now\<close> stands for every call of
  \<open>_now_utc()\<close> made while one guard runs. The range limits of \<open>datetime\<close>
  (years 1 to 9999) are not modelled.
\<close>

definition read_csv_rows :: "csv_file option \<Rightarrow> row list" where
  "read_csv_rows f = (case f of None \<Rightarrow> [] | Some c \<Rightarrow> dict_reader c)"

definition parse_ts :: "pylib \<Rightarrow> string \<Rightarrow> int option" where
  "parse_ts L ts =
     (if ts = [] then None
      else fromisoformat L (rev (dropWhile (\<lambda>c. c = CHR ''Z'') (rev ts))))"

definition orders_today :: "pylib \<Rightarrow> int \<Rightarrow> csv_file option \<Rightarrow> row list" where
  "orders_today L now f =
     filter (\<lambda>r. prefix (strftime_ymd L now) (sget r ''ts_utc'')) (read_csv_rows f)"

definition orders_today_for_instrument ::
  "pylib \<Rightarrow> int \<Rightarrow> csv_file option \<Rightarrow> string \<Rightarrow> row list" where
  "orders_today_for_instrument L now f name =
     filter (\<lambda>r. sget r ''name'' = name) (orders_today L now f)"

definition is_order_event :: "row \<Rightarrow> bool" where
  "is_order_event r = (py_upper (sget r ''event'') \<in> {''ORDER_SENT'', ''ORDER_DRY''})"

definition count_orders_today_instrument ::
  "pylib \<Rightarrow> int \<Rightarrow> csv_file option \<Rightarrow> string \<Rightarrow> int" where
  "count_orders_today_instrument L now f name =
     int (length (filter is_order_event (orders_today_for_instrument L now f name)))"

text \<open>
  \<open>sorted(..., reverse=True)\<close> over the parsed times: comparing \<open>None\<close> with anything
  is a TypeError, which a list of two or more holding a \<open>None\<close> meets; a list of one
  is returned as it is.
\<close>

definition todays_order_times ::
  "pylib \<Rightarrow> int \<Rightarrow> csv_file option \<Rightarrow> string \<Rightarrow> int option list" where
  "todays_order_times L now f name =
     (let recs = filter is_order_event (orders_today_for_instrument L now f name)
      in map (\<lambda>r. parse_ts L (sget r ''ts_utc''))
           (filter (\<lambda>r. sget r ''ts_utc'' \<noteq> []) recs))"

definition last_order_time_instrument ::
  "pylib \<Rightarrow> int \<Rightarrow> csv_file option \<Rightarrow> string \<Rightarrow> py_error + int option" where
  "last_order_time_instrument L now f name =
     (case todays_order_times L now f name of
        [] \<Rightarrow> Inr None
      | [t] \<Rightarrow> Inr t
      | ts \<Rightarrow> if None \<in> set ts then Inl TypeError
             else Inr (Some (Max (set (map the ts)))))"

text \<open>
  \<open>total += float(r.get("eff_risk_gbp") or 0.0)\<close>, a cell that does not parse being
  passed over.
\<close>

definition row_eff_risk :: "pylib \<Rightarrow> row \<Rightarrow> real" where
  "row_eff_risk L r =
     (if sget r ''eff_risk_gbp'' = [] then 0
      else (case float_of_str L (sget r ''eff_risk_gbp'') of None \<Rightarrow> 0 | Some v \<Rightarrow> v))"

definition today_committed_risk_gbp :: "pylib \<Rightarrow> int \<Rightarrow> csv_file option \<Rightarrow> real" where
  "today_committed_risk_gbp L now f =
     sum_list (map (row_eff_risk L) (filter is_order_event (orders_today L now f)))"

text \<open>
  The broker session: what each REST call answers while one guard or one watchlist item
  is processed (\<open>Inl\<close>: the call raises). \<open>ig_price_closes\<close> is the close column of
  the frame that \<open>prices_df_from_json\<close> builds from the answer of \<open>ig.prices\<close>, in the
  order of the bars (the parsing and sorting of the bar times by pandas is not
  modelled). \<open>ig_confirms ref k\<close> is the answer to the \<open>k\<close>-th poll of the confirmation
  of \<open>ref\<close>.
\<close>

record ig_rest =
  ig_me :: "py_error + json"
  ig_positions :: "py_error + json"
  ig_markets_by_epic :: "string \<Rightarrow> py_error + json"
  ig_price_closes :: "string \<Rightarrow> py_error + real option list"
  ig_place_position :: "json \<Rightarrow> py_error + json"
  ig_confirms :: "string \<Rightarrow> nat \<Rightarrow> py_error + json"

text \<open>\<open>meta[k] = v\<close> and \<open>meta.update(other)\<close> on an insertion-ordered dict.\<close>

type_synonym pydict = "(string \<times> json) list"

definition dict_update :: "pydict \<Rightarrow> pydict \<Rightarrow> pydict" where
  "dict_update m kvs = fold (\<lambda>(k, v). AList.update k v) kvs m"

definition opt_float :: "real option \<Rightarrow> json" where
  "opt_float x = (case x of None \<Rightarrow> JNull | Some v \<Rightarrow> JFloat v)"

definition current_balance_gbp :: "pylib \<Rightarrow> ig_rest \<Rightarrow> real option" where
  "current_balance_gbp L ig =
     (case bindE (ig_me ig) (\<lambda>me.
           bindE (dget me ''accountInfo'' JNull) (\<lambda>a.
           bindE (dget (py_or a (JObj [])) ''balance'' JNull) (\<lambda>bal.
           if bal = JNull then Inr None
           else bindE (py_float L bal) (\<lambda>v. Inr (Some v))))) of
        Inl e \<Rightarrow> None
      | Inr r \<Rightarrow> r)"

text \<open>
  The baseline file of the day: \<open>None\<close> when it does not exist, \<open>Some None\<close> when
  its content does not decode to a number, \<open>Some (Some b)\<close> otherwise. The function
  returns the triple and the file as it leaves it.
\<close>

type_synonym baseline_file = "real option option"

definition ensure_daily_baseline_and_loss ::
  "pylib \<Rightarrow> ig_rest \<Rightarrow> baseline_file
     \<Rightarrow> (real option \<times> real option \<times> real option) \<times> baseline_file" where
  "ensure_daily_baseline_and_loss L ig bf =
     (case current_balance_gbp L ig of
        None \<Rightarrow> ((None, None, None), bf)
      | Some cur \<Rightarrow>
          (case bf of
             None \<Rightarrow> ((Some cur, Some cur, Some (max 0 (cur - cur))), Some (Some cur))
           | Some None \<Rightarrow> ((Some cur, Some cur, Some (max 0 (cur - cur))), bf)
           | Some (Some baseline) \<Rightarrow>
               ((Some baseline, Some cur, Some (max 0 (baseline - cur))), bf)))"

subsection \<open>Trading window\<close>

text \<open>\<open>h, m = map(int, s.split(":"))\<close> followed by the range check of \<open>datetime(...)\<close>.\<close>

definition hh_mm :: "pylib \<Rightarrow> json \<Rightarrow> py_error + int \<times> int" where
  "hh_mm L v =
     (case v of
        JStr s \<Rightarrow>
          (case split_on (CHR '':'') s of
             [a, b] \<Rightarrow>
               (case (int_of_str L a, int_of_str L b) of
                  (Some h, Some m) \<Rightarrow> Inr (h, m)
                | _ \<Rightarrow> Inl ValueError)
           | _ \<Rightarrow> Inl ValueError)
      | _ \<Rightarrow> Inl AttributeError)"

definition valid_hm :: "int \<times> int \<Rightarrow> bool" where
  "valid_hm p = (0 \<le> fst p \<and> fst p \<le> 23 \<and> 0 \<le> snd p \<and> snd p \<le> 59)"

text \<open>
  Datetimes that share their \<open>tzinfo\<close> are compared by their local fields, in order.
\<close>

definition wc_key :: "wallclock \<Rightarrow> int \<times> int \<times> int \<times> int \<times> int" where
  "wc_key w = (wc_day w, wc_hour w, wc_minute w, wc_second w, wc_usec w)"

definition at_hm :: "wallclock \<Rightarrow> int \<times> int \<Rightarrow> wallclock" where
  "at_hm w p =
     \<lparr>wc_day = wc_day w, wc_hour = fst p, wc_minute = snd p, wc_second = 0, wc_usec = 0\<rparr>"

definition in_window :: "wallclock \<Rightarrow> int \<times> int \<Rightarrow> int \<times> int \<Rightarrow> bool" where
  "in_window local s e =
     (let start_dt = at_hm local s; end_dt = at_hm local e
      in if wc_key end_dt \<ge> wc_key start_dt
         then wc_key start_dt \<le> wc_key local \<and> wc_key local \<le> wc_key end_dt
         else (wc_key local \<ge> wc_key start_dt \<or> wc_key local \<le> wc_key end_dt))"

definition in_trading_window ::
  "pylib \<Rightarrow> json \<Rightarrow> int \<Rightarrow> py_error + bool \<times> pydict" where
  "in_trading_window L cfg now_utc =
     bindE (dget cfg ''risk_guards'' JNull) (\<lambda>rg0.
     bindE (dget (py_or rg0 (JObj [])) ''trading_hours'' JNull) (\<lambda>th0.
     let th = py_or th0 (JObj []) in
     if \<not> truthy th then Inr (True, [(''trading_hours_enabled'', JBool False)])
     else
     bindE (dget th ''enabled'' (JBool False)) (\<lambda>en.
     if \<not> truthy en then Inr (True, [(''trading_hours_enabled'', JBool False)])
     else
     bindE (dget th ''timezone'' (JStr ''Europe/London'')) (\<lambda>tzname.
     bindE (dget th ''start'' (JStr ''00:00'')) (\<lambda>start.
     bindE (dget th ''end'' (JStr ''23:59'')) (\<lambda>end'.
     let tz = (case tzname of
                 JStr n \<Rightarrow> if zoneinfo_known L n then Zone n else UTC
               | _ \<Rightarrow> UTC);
         local = astimezone L tz now_utc
     in
     bindE (hh_mm L start) (\<lambda>s.
     bindE (hh_mm L end') (\<lambda>e.
     if \<not> valid_hm s \<or> \<not> valid_hm e then Inl ValueError
     else Inr (in_window local s e,
               [(''trading_hours_enabled'', JBool True),
                (''timezone'', tzname), (''start'', start), (''end'', end'),
                (''now_local'', JStr (isoformat_local L tz now_utc))])))))))))"

subsection \<open>Guard API\<close>

record guard_result =
  ok :: bool
  reason :: string
  meta :: pydict

definition py_len :: "json \<Rightarrow> py_error + int" where
  "py_len v =
     (case v of
        JArr xs \<Rightarrow> Inr (int (length xs))
      | JObj kv \<Rightarrow> Inr (int (length kv))
      | JStr s \<Rightarrow> Inr (int (length s))
      | _ \<Rightarrow> Inl TypeError)"

text \<open>
  The count of open positions: any exception of the query, or of reading its answer,
  gives 0.
\<close>

definition open_positions_count :: "ig_rest \<Rightarrow> int" where
  "open_positions_count ig =
     (case bindE (ig_positions ig) (\<lambda>data.
           bindE (dget data ''positions'' JNull) (\<lambda>a.
           if truthy a then py_len a
           else bindE (dget data ''response'' JNull) (\<lambda>b.
                py_len (py_or b (JArr []))))) of
        Inl e \<Rightarrow> 0
      | Inr n \<Rightarrow> n)"

text \<open>
  \<open>(cfg.get("risk_guards") or {})\<close>, \<open>int(d.get(k, 0) or 0)\<close> and
  \<open>float(d.get(k, 0.0) or 0.0)\<close>.
\<close>

definition risk_guards_cfg :: "json \<Rightarrow> py_error + json" where
  "risk_guards_cfg cfg = bindE (dget cfg ''risk_guards'' JNull) (\<lambda>rg0. Inr (py_or rg0 (JObj [])))"

definition int_cfg :: "pylib \<Rightarrow> json \<Rightarrow> string \<Rightarrow> py_error + int" where
  "int_cfg L d k = bindE (dget d k (JInt 0)) (\<lambda>v. py_int L (py_or v (JInt 0)))"

definition float_cfg :: "pylib \<Rightarrow> json \<Rightarrow> string \<Rightarrow> py_error + real" where
  "float_cfg L d k = bindE (dget d k (JFloat 0)) (\<lambda>v. py_float L (py_or v (JFloat 0)))"

definition blocked :: "string \<Rightarrow> pydict \<Rightarrow> guard_result" where
  "blocked why m = \<lparr>ok = False, reason = why, meta = m\<rparr>"

definition allowed :: "string \<Rightarrow> pydict \<Rightarrow> guard_result" where
  "allowed why m = \<lparr>ok = True, reason = why, meta = m\<rparr>"

definition guard_preflight ::
  "pylib \<Rightarrow> ig_rest \<Rightarrow> json \<Rightarrow> int \<Rightarrow> py_error + guard_result" where
  "guard_preflight L ig cfg run_trade_count =
     bindE (risk_guards_cfg cfg) (\<lambda>rg.
     bindE (dget rg ''enabled'' (JBool False)) (\<lambda>en.
     if \<not> truthy en then Inr (allowed ''RG_DISABLED'' [])
     else
     bindE (int_cfg L rg ''max_trades_per_run'') (\<lambda>mtr.
     let meta1 = AList.update ''run_trade_count'' (JInt run_trade_count)
                   (AList.update ''max_trades_per_run'' (JInt mtr) []) in
     if mtr \<noteq> 0 \<and> run_trade_count \<ge> mtr
     then Inr (blocked ''BLOCK_MAX_TRADES_PER_RUN'' meta1)
     else
     bindE (int_cfg L rg ''max_concurrent_positions'') (\<lambda>mcp.
     let meta2 = AList.update ''max_concurrent_positions'' (JInt mcp) meta1 in
     if mcp \<noteq> 0 then
       (let open_n = open_positions_count ig;
            meta3 = AList.update ''open_positions'' (JInt open_n) meta2
        in if open_n \<ge> mcp
           then Inr (blocked ''BLOCK_MAX_CONCURRENT_POSITIONS'' meta3)
           else Inr (allowed ''RG_OK'' meta3))
     else Inr (allowed ''RG_OK'' meta2)))))"

text \<open>
  The post-size guard runs five checks in order. Each is a step that either ends the
  guard with a result (\<open>Inl\<close>) or hands the metadata on (\<open>Inr\<close>); \<open>rg\<close> is the
  \<open>risk_guards\<close> section of the configuration. \<open>1e-9\<close> is the real \<open>1 / 10 ^ 9\<close>.
\<close>

definition tol :: real where
  "tol = 1 / 10 ^ 9"

definition timedelta_minutes :: "int \<Rightarrow> int" where
  "timedelta_minutes m = m * 60 * 1000000"

definition per_instrument_cfg :: "json \<Rightarrow> py_error + json" where
  "per_instrument_cfg rg = bindE (dget rg ''per_instrument'' JNull) (\<lambda>pi0. Inr (py_or pi0 (JObj [])))"

definition check_trading_hours ::
  "pylib \<Rightarrow> int \<Rightarrow> json \<Rightarrow> pydict \<Rightarrow> py_error + (guard_result + pydict)" where
  "check_trading_hours L now cfg meta0 =
     bindE (in_trading_window L cfg now) (\<lambda>(ok_window, wmeta).
     let meta1 = dict_update meta0 wmeta in
     if \<not> ok_window then Inr (Inl (blocked ''BLOCK_TRADING_WINDOW'' meta1))
     else Inr (Inr meta1))"

definition check_max_trades_per_day ::
  "pylib \<Rightarrow> int \<Rightarrow> csv_file option \<Rightarrow> json \<Rightarrow> string \<Rightarrow> pydict
     \<Rightarrow> py_error + (guard_result + pydict)" where
  "check_max_trades_per_day L now f rg instrument_name meta1 =
     bindE (per_instrument_cfg rg) (\<lambda>pi.
     bindE (int_cfg L pi ''max_trades_per_day'') (\<lambda>max_tpd.
     if max_tpd \<noteq> 0 then
       (let count_i = count_orders_today_instrument L now f instrument_name;
            meta2 = AList.update ''orders_today_instrument'' (JInt count_i)
                      (AList.update ''max_trades_per_day'' (JInt max_tpd) meta1)
        in if count_i \<ge> max_tpd
           then Inr (Inl (blocked ''BLOCK_MAX_TRADES_PER_DAY_INSTRUMENT'' meta2))
           else Inr (Inr meta2))
     else Inr (Inr meta1)))"

definition cooldown_min_cfg :: "pylib \<Rightarrow> json \<Rightarrow> py_error + int" where
  "cooldown_min_cfg L rg =
     bindE (per_instrument_cfg rg) (\<lambda>pi. int_cfg L pi ''cooldown_min'')"

definition check_cooldown ::
  "pylib \<Rightarrow> int \<Rightarrow> csv_file option \<Rightarrow> json \<Rightarrow> string \<Rightarrow> pydict
     \<Rightarrow> py_error + (guard_result + pydict)" where
  "check_cooldown L now f rg instrument_name meta2 =
     bindE (cooldown_min_cfg L rg) (\<lambda>cooldown_min.
     if cooldown_min > 0 then
       bindE (last_order_time_instrument L now f instrument_name) (\<lambda>last_ts.
       let meta3 = AList.update ''last_order_ts''
                     (JStr (case last_ts of None \<Rightarrow> [] | Some t \<Rightarrow> isoformat_utc L t))
                     (AList.update ''cooldown_min'' (JInt cooldown_min) meta2)
       in (case last_ts of
             None \<Rightarrow> Inr (Inr meta3)
           | Some t \<Rightarrow>
               if now < t + timedelta_minutes cooldown_min
               then Inr (Inl (blocked ''BLOCK_COOLDOWN_INSTRUMENT'' meta3))
               else Inr (Inr meta3)))
     else Inr (Inr meta2))"

definition check_daily_risk_budget ::
  "pylib \<Rightarrow> int \<Rightarrow> csv_file option \<Rightarrow> json \<Rightarrow> real \<Rightarrow> pydict
     \<Rightarrow> py_error + (guard_result + pydict)" where
  "check_daily_risk_budget L now f rg planned_eff_risk_gbp meta3 =
     bindE (float_cfg L rg ''daily_risk_budget_gbp'') (\<lambda>budget.
     let meta4 = AList.update ''daily_risk_budget_gbp'' (JFloat budget) meta3 in
     if budget > 0 then
       (let committed = today_committed_risk_gbp L now f;
            meta5 = AList.update ''today_committed_risk_gbp'' (JFloat committed) meta4
        in if committed + max 0 planned_eff_risk_gbp > budget + tol
           then Inr (Inl (blocked ''BLOCK_DAILY_RISK_BUDGET'' meta5))
           else Inr (Inr meta5))
     else Inr (Inr meta4))"

definition check_daily_loss_limit ::
  "pylib \<Rightarrow> ig_rest \<Rightarrow> baseline_file \<Rightarrow> json \<Rightarrow> pydict
     \<Rightarrow> py_error + guard_result \<times> baseline_file" where
  "check_daily_loss_limit L ig bf rg meta5 =
     bindE (float_cfg L rg ''daily_loss_limit_gbp'') (\<lambda>dll.
     let meta6 = AList.update ''daily_loss_limit_gbp'' (JFloat dll) meta5 in
     if dll > 0 then
       (case ensure_daily_baseline_and_loss L ig bf of
          ((baseline, current, loss), bf') \<Rightarrow>
            let meta7 = AList.update ''realized_loss_gbp'' (opt_float loss)
                          (AList.update ''current_balance_gbp'' (opt_float current)
                             (AList.update ''pnl_baseline_gbp'' (opt_float baseline) meta6))
            in (case (loss, baseline) of
                  (Some l, Some b) \<Rightarrow>
                    if l \<ge> dll - tol
                    then Inr (blocked ''BLOCK_DAILY_LOSS_LIMIT'' meta7, bf')
                    else Inr (allowed ''RG2_OK'' meta7, bf')
                | _ \<Rightarrow> Inr (allowed ''RG2_OK'' meta7, bf')))
     else Inr (allowed ''RG2_OK'' meta6, bf))"

text \<open>The first check that ends the guard gives its result; the file is then untouched.\<close>

definition and_then ::
  "py_error + (guard_result + pydict) \<Rightarrow> baseline_file
     \<Rightarrow> (pydict \<Rightarrow> py_error + guard_result \<times> baseline_file)
     \<Rightarrow> py_error + guard_result \<times> baseline_file" where
  "and_then step bf rest =
     (case step of
        Inl e \<Rightarrow> Inl e
      | Inr (Inl res) \<Rightarrow> Inr (res, bf)
      | Inr (Inr m) \<Rightarrow> rest m)"

definition postsize_meta :: "string \<Rightarrow> real \<Rightarrow> pydict" where
  "postsize_meta instrument_name planned_eff_risk_gbp =
     [(''instrument'', JStr instrument_name),
      (''planned_eff_risk_gbp'', JFloat planned_eff_risk_gbp)]"

definition guard_postsize ::
  "pylib \<Rightarrow> int \<Rightarrow> ig_rest \<Rightarrow> json \<Rightarrow> csv_file option \<Rightarrow> baseline_file \<Rightarrow> string \<Rightarrow> real
     \<Rightarrow> py_error + guard_result \<times> baseline_file" where
  "guard_postsize L now ig cfg f bf instrument_name planned_eff_risk_gbp =
     bindE (risk_guards_cfg cfg) (\<lambda>rg.
     let meta0 = postsize_meta instrument_name planned_eff_risk_gbp in
     bindE (dget rg ''enabled'' (JBool False)) (\<lambda>en.
     if \<not> truthy en then Inr (allowed ''RG_DISABLED'' meta0, bf)
     else
       and_then (check_trading_hours L now cfg meta0) bf (\<lambda>meta1.
       and_then (check_max_trades_per_day L now f rg instrument_name meta1) bf (\<lambda>meta2.
       and_then (check_cooldown L now f rg instrument_name meta2) bf (\<lambda>meta3.
       and_then (check_daily_risk_budget L now f rg planned_eff_risk_gbp meta3) bf (\<lambda>meta5.
       check_daily_loss_limit L ig bf rg meta5))))))"

section \<open>Indicators and signal (trade\_once.py, rest\_signals.py)\<close>

text \<open>
  A float that may be NaN or infinite. Prices are finite or missing: a column of prices
  is a list of \<open>real option\<close>, \<open>None\<close> being NaN. Arithmetic follows IEEE 754 but
  for the sign of a zero, which is not modelled: it can change the sign of an infinite
  quotient, and no value computed below depends on that sign.
\<close>

datatype fl = Fin real | PInf | NInf | NaN

definition fl_of :: "real option \<Rightarrow> fl" where
  "fl_of x = (case x of None \<Rightarrow> NaN | Some r \<Rightarrow> Fin r)"

fun fl_neg :: "fl \<Rightarrow> fl" where
  "fl_neg (Fin r) = Fin (- r)"
| "fl_neg PInf = NInf"
| "fl_neg NInf = PInf"
| "fl_neg NaN = NaN"

fun fl_add :: "fl \<Rightarrow> fl \<Rightarrow> fl" where
  "fl_add NaN _ = NaN"
| "fl_add _ NaN = NaN"
| "fl_add (Fin a) (Fin b) = Fin (a + b)"
| "fl_add PInf NInf = NaN"
| "fl_add NInf PInf = NaN"
| "fl_add PInf _ = PInf"
| "fl_add NInf _ = NInf"
| "fl_add _ PInf = PInf"
| "fl_add _ NInf = NInf"

definition fl_sub :: "fl \<Rightarrow> fl \<Rightarrow> fl" where
  "fl_sub a b = fl_add a (fl_neg b)"

fun fl_div :: "fl \<Rightarrow> fl \<Rightarrow> fl" where
  "fl_div NaN _ = NaN"
| "fl_div _ NaN = NaN"
| "fl_div (Fin a) (Fin b) =
     (if b \<noteq> 0 then Fin (a / b)
      else if a > 0 then PInf else if a < 0 then NInf else NaN)"
| "fl_div (Fin a) _ = Fin 0"
| "fl_div PInf (Fin b) = (if b \<ge> 0 then PInf else NInf)"
| "fl_div NInf (Fin b) = (if b \<ge> 0 then NInf else PInf)"
| "fl_div _ _ = NaN"

text \<open>Comparisons: false as soon as one side is NaN.\<close>

fun fl_less :: "fl \<Rightarrow> fl \<Rightarrow> bool" where
  "fl_less NaN _ = False"
| "fl_less _ NaN = False"
| "fl_less (Fin a) (Fin b) = (a < b)"
| "fl_less _ NInf = False"
| "fl_less PInf _ = False"
| "fl_less NInf _ = True"
| "fl_less _ PInf = True"

fun fl_le :: "fl \<Rightarrow> fl \<Rightarrow> bool" where
  "fl_le NaN _ = False"
| "fl_le _ NaN = False"
| "fl_le a b = (a = b \<or> fl_less a b)"

text \<open>
  \<open>Series.diff()\<close>, \<open>clip(lower=0)\<close>, \<open>-clip(upper=0)\<close> and
  \<open>rolling(n, min_periods=n).mean()\<close>: the mean of the last \<open>n\<close> values, NaN until
  \<open>n\<close> values are there and while one of them is NaN.
\<close>

fun diff_from :: "real option \<Rightarrow> real option list \<Rightarrow> real option list" where
  "diff_from prev [] = []"
| "diff_from prev (x # xs) =
     (case (prev, x) of (Some a, Some b) \<Rightarrow> Some (b - a) | _ \<Rightarrow> None) # diff_from x xs"

definition diff :: "real option list \<Rightarrow> real option list" where
  "diff s = diff_from None s"

definition clip_lower0 :: "real option list \<Rightarrow> real option list" where
  "clip_lower0 d = map (map_option (max 0)) d"

definition neg_clip_upper0 :: "real option list \<Rightarrow> real option list" where
  "neg_clip_upper0 d = map (map_option (\<lambda>x. - min x 0)) d"

definition window_mean :: "nat \<Rightarrow> real option list \<Rightarrow> real option" where
  "window_mean n w =
     (if n = 0 \<or> length w < n \<or> None \<in> set w then None
      else Some (sum_list (map the w) / real n))"

definition rolling_mean :: "nat \<Rightarrow> real option list \<Rightarrow> real option list" where
  "rolling_mean n xs =
     map (\<lambda>i. window_mean n (drop (Suc i - n) (take (Suc i) xs))) [0 ..< length xs]"

definition sma :: "real option list \<Rightarrow> nat \<Rightarrow> real option list" where
  "sma s n = rolling_mean n s"

text \<open>\<open>100 - (100 / (1 + rs))\<close> with \<open>rs = up / dn\<close>.\<close>

definition rsi_value :: "real option \<Rightarrow> real option \<Rightarrow> fl" where
  "rsi_value up dn =
     fl_sub (Fin 100) (fl_div (Fin 100) (fl_add (Fin 1) (fl_div (fl_of up) (fl_of dn))))"

text \<open>The RSI of the pipeline (trade\_once.py): rolling means of the moves.\<close>

definition avg_up :: "real option list \<Rightarrow> nat \<Rightarrow> real option list" where
  "avg_up s n = rolling_mean n (clip_lower0 (diff s))"

definition avg_down :: "real option list \<Rightarrow> nat \<Rightarrow> real option list" where
  "avg_down s n = rolling_mean n (neg_clip_upper0 (diff s))"

definition rsi :: "real option list \<Rightarrow> nat \<Rightarrow> fl list" where
  "rsi s n = map2 rsi_value (avg_up s n) (avg_down s n)"

text \<open>
  The RSI of rest\_signals.py: \<open>ewm(alpha=1/period, adjust=False,
  min_periods=period).mean()\<close> of the moves, Wilder's smoothing. The state of the
  recursion is the weighted mean so far, the weight of the past and the number of
  values seen; a NaN leaves the mean as it is and lets the weight of the past decay.
\<close>

fun ewm_from ::
  "real \<Rightarrow> nat \<Rightarrow> real option \<Rightarrow> real \<Rightarrow> nat \<Rightarrow> real option list \<Rightarrow> real option list" where
  "ewm_from alpha minp weighted old_wt nobs [] = []"
| "ewm_from alpha minp weighted old_wt nobs (cur # xs) =
     (let nobs' = (if cur = None then nobs else Suc nobs);
          decayed = old_wt * (1 - alpha);
          (weighted', old_wt') =
            (case weighted of
               None \<Rightarrow> (cur, old_wt)
             | Some w \<Rightarrow>
                 (case cur of
                    None \<Rightarrow> (weighted, decayed)
                  | Some c \<Rightarrow>
                      ((if w \<noteq> c then Some ((decayed * w + alpha * c) / (decayed + alpha))
                        else weighted), 1)))
      in (if nobs' \<ge> minp then weighted' else None)
         # ewm_from alpha minp weighted' old_wt' nobs' xs)"

definition ewm_mean :: "real \<Rightarrow> nat \<Rightarrow> real option list \<Rightarrow> real option list" where
  "ewm_mean alpha minp xs =
     (case xs of
        [] \<Rightarrow> []
      | x # rest \<Rightarrow>
          (let nobs = (if x = None then 0 else 1)
           in (if nobs \<ge> minp then x else None) # ewm_from alpha minp x 1 nobs rest))"

definition rsi_wilder :: "real option list \<Rightarrow> nat \<Rightarrow> fl list" where
  "rsi_wilder series period =
     map2 rsi_value
       (ewm_mean (1 / real period) period (clip_lower0 (diff series)))
       (ewm_mean (1 / real period) period (neg_clip_upper0 (diff series)))"

text \<open>
  Wilder's smoothing as the specification words it, with Wilder's own seed: the average
  is null until \<open>period + 1\<close> observations exist, is then the mean of the first
  \<open>period\<close> moves, and from there on moves towards each new move by the smoothing
  factor \<open>1 / period\<close>. (The exponential mean of rest\_signals.py above differs only
  in its seed, the first move.)
\<close>

fun wilder_from :: "nat \<Rightarrow> real option \<Rightarrow> real option list \<Rightarrow> real option list" where
  "wilder_from n prev [] = []"
| "wilder_from n prev (x # xs) =
     (let cur = (case (prev, x) of
                   (Some a, Some v) \<Rightarrow> Some (a + (v - a) / real n)
                 | _ \<Rightarrow> None)
      in cur # wilder_from n cur xs)"

definition wilder_smooth :: "nat \<Rightarrow> real option list \<Rightarrow> real option list" where
  "wilder_smooth n moves =
     (if length moves \<le> n then replicate (length moves) None
      else (let seed = window_mean n (take n (drop 1 moves))
            in replicate n None @ seed # wilder_from n seed (drop (Suc n) moves)))"

definition rsi_wilder_seeded :: "real option list \<Rightarrow> nat \<Rightarrow> fl list" where
  "rsi_wilder_seeded series period =
     map2 rsi_value
       (wilder_smooth period (clip_lower0 (diff series)))
       (wilder_smooth period (neg_clip_upper0 (diff series)))"

text \<open>
  The frame the signal reads: per bar the close and the two indicator columns.
  \<open>pd.isna\<close> holds of NaN only.
\<close>

record bar_row =
  close :: fl
  sma20 :: fl
  rsi14 :: fl

datatype signal = BUY | SELL | HOLD

definition isna :: "fl \<Rightarrow> bool" where
  "isna x = (x = NaN)"

definition simple_signal ::
  "bar_row list \<Rightarrow> real \<Rightarrow> real \<Rightarrow> int \<Rightarrow> py_error + signal" where
  "simple_signal df rsi_buy_min rsi_sell_max warmup_bars =
     (if int (length df) < warmup_bars then Inr HOLD
      else if df = [] then Inl IndexError
      else
        (let l = last df in
         if isna (sma20 l) \<or> isna (rsi14 l) then Inr HOLD
         else if fl_less (sma20 l) (close l) \<and> fl_le (Fin rsi_buy_min) (rsi14 l) then Inr BUY
         else if fl_less (close l) (sma20 l) \<and> fl_le (rsi14 l) (Fin rsi_sell_max) then Inr SELL
         else Inr HOLD))"

text \<open>\<open>df["sma20"] = sma(df["close"], 20)\<close> and \<open>df["rsi14"] = rsi(df["close"], 14)\<close>.\<close>

definition with_indicators :: "real option list \<Rightarrow> bar_row list" where
  "with_indicators closes =
     map (\<lambda>(c, s, r). \<lparr>close = fl_of c, sma20 = fl_of s, rsi14 = r\<rparr>)
       (zip closes (zip (sma closes 20) (rsi closes 14)))"

section \<open>Sizing and order placement (trade\_once.py)\<close>

text \<open>\<open>round(k)\<close> of Python: to the nearest integer, a half to the even one.\<close>

definition py_round :: "real \<Rightarrow> int" where
  "py_round k =
     (let f = \<lfloor>k\<rfloor>; d = k - of_int f
      in if d < 1 / 2 then f else if d > 1 / 2 then f + 1
         else if even f then f else f + 1)"

definition snap :: "real \<Rightarrow> real \<Rightarrow> string \<Rightarrow> real" where
  "snap v step mode =
     (if step \<le> 0 then v
      else (let k = v / step
            in if mode = ''up'' then of_int \<lceil>k\<rceil> * step
               else if mode = ''nearest'' then of_int (py_round k) * step
               else of_int \<lfloor>k\<rfloor> * step))"

definition instrument_of :: "json \<Rightarrow> py_error + json" where
  "instrument_of market =
     bindE (dget market ''instrument'' JNull) (\<lambda>i. Inr (py_or i (JObj [])))"

definition value_per_point :: "pylib \<Rightarrow> json \<Rightarrow> py_error + real" where
  "value_per_point L market =
     bindE (instrument_of market) (\<lambda>instr.
     bindE (dget instr ''contractSize'' JNull) (\<lambda>cs.
     Inr (case py_float L cs of Inl e \<Rightarrow> 0 | Inr v \<Rightarrow> v)))"

definition dealing_rules :: "json \<Rightarrow> py_error + json" where
  "dealing_rules market =
     bindE (dget market ''dealingRules'' JNull) (\<lambda>a.
     if truthy a then Inr a
     else bindE (instrument_of market) (\<lambda>instr.
          bindE (dget instr ''dealingRules'' JNull) (\<lambda>b. Inr (py_or b (JObj [])))))"

definition min_size_and_step :: "pylib \<Rightarrow> json \<Rightarrow> py_error + real \<times> real" where
  "min_size_and_step L market =
     bindE (dealing_rules market) (\<lambda>rules.
     bindE (dget rules ''minDealSize'' JNull) (\<lambda>m0.
     let mds = py_or m0 (JObj []) in
     bindE (dget mds ''value'' JNull) (\<lambda>v.
     bindE (py_float L (py_or v (JFloat 1))) (\<lambda>min_sz.
     bindE (dget mds ''step'' JNull) (\<lambda>s.
     bindE (py_float L (py_or s (py_or v (JFloat 1)))) (\<lambda>step.
     Inr (min_sz, step)))))))"

definition min_stop_points :: "pylib \<Rightarrow> json \<Rightarrow> py_error + real" where
  "min_stop_points L market =
     bindE (dealing_rules market) (\<lambda>rules.
     bindE (dget rules ''minStopOrLimitDistance'' JNull) (\<lambda>a.
     bindE (if truthy a then Inr a
            else bindE (dget rules ''minStopDistance'' JNull) (\<lambda>b. Inr (py_or b (JObj []))))
       (\<lambda>msl.
     Inr (case bindE (dget msl ''value'' JNull) (\<lambda>v. py_float L (py_or v (JFloat 0))) of
            Inl e \<Rightarrow> 0
          | Inr x \<Rightarrow> x))))"

text \<open>\<open>cur[0]\<close> on a decoded value that is truthy.\<close>

definition first_item :: "json \<Rightarrow> py_error + json" where
  "first_item v =
     (case v of
        JArr (x # xs) \<Rightarrow> Inr x
      | JStr (c # cs) \<Rightarrow> Inr (JStr [c])
      | JObj kv \<Rightarrow> Inl KeyError
      | _ \<Rightarrow> Inl TypeError)"

definition currency_code :: "json \<Rightarrow> py_error + json" where
  "currency_code market =
     bindE (instrument_of market) (\<lambda>instr.
     bindE (dget instr ''currencies'' JNull) (\<lambda>a.
     bindE (if truthy a then Inr a
            else bindE (dget market ''market'' JNull) (\<lambda>m.
                 bindE (dget (py_or m (JObj [])) ''currencies'' JNull) (\<lambda>b.
                 Inr (py_or b (JArr []))))) (\<lambda>cur.
     if truthy cur then bindE (first_item cur) (\<lambda>c. dget c ''code'' JNull)
     else Inr (JStr ''GBP''))))"

text \<open>
  The sizer. \<open>max(stop_pts, 1e-9)\<close> keeps the divisor above 0; a size below the
  minimum deal size is raised to it.
\<close>

definition sized_order ::
  "pylib \<Rightarrow> json \<Rightarrow> real \<Rightarrow> real \<Rightarrow> string \<Rightarrow> py_error + real \<times> real" where
  "sized_order L market risk_gbp stop_pts round_mode =
     bindE (value_per_point L market) (\<lambda>vpp.
     if vpp \<le> 0
     then Inl (RuntimeError ''Cannot determine value-per-point from market.contractSize'')
     else
       (let raw = risk_gbp / (max stop_pts tol * vpp) in
        bindE (min_size_and_step L market) (\<lambda>(min_sz, step).
        let sz = snap raw step round_mode
        in Inr (if sz < min_sz then min_sz else sz, raw))))"

text \<open>
  Placing the order: the payload, then a dry run, an order the broker took, or one it
  refused with an HTTP error. Any other exception of the call leaves the run.
\<close>

datatype order_out = DryRun json | Placed json json | Refused int string json

definition order_payload ::
  "string \<Rightarrow> string \<Rightarrow> real \<Rightarrow> real \<Rightarrow> real \<Rightarrow> json \<Rightarrow> json" where
  "order_payload epic direction sz stop_dist limit_dist currency =
     JObj [(''epic'', JStr epic), (''expiry'', JStr ''-''), (''direction'', JStr direction),
           (''size'', JFloat sz), (''orderType'', JStr ''MARKET''),
           (''timeInForce'', JStr ''FILL_OR_KILL''), (''guaranteedStop'', JBool False),
           (''forceOpen'', JBool True), (''currencyCode'', currency),
           (''stopDistance'', JFloat stop_dist), (''limitDistance'', JFloat limit_dist)]"

definition place_order ::
  "ig_rest \<Rightarrow> string \<Rightarrow> string \<Rightarrow> real \<Rightarrow> real \<Rightarrow> real \<Rightarrow> json \<Rightarrow> bool
     \<Rightarrow> py_error + order_out" where
  "place_order ig epic direction sz stop_dist limit_dist currency live =
     (let payload = order_payload epic direction sz stop_dist limit_dist currency
      in if \<not> live then Inr (DryRun payload)
         else (case ig_place_position ig payload of
                 Inr resp \<Rightarrow> Inr (Placed payload resp)
               | Inl (HTTPError code body) \<Rightarrow> Inr (Refused code body payload)
               | Inl e \<Rightarrow> Inl e))"

section \<open>The run over the watchlist (run\_loop of trade\_once.py)\<close>

text \<open>
  What the program hands to the CSV writer: a dict from column names to values. The
  writer renders a string as it is, \<open>None\<close> as the empty cell and any other value by
  \<open>str\<close>; \<open>write_log\<close> first turns the three JSON columns into text with
  \<open>json.dumps\<close>. \<open>ensure_log\<close> creates a missing file with the header line.
\<close>

datatype cell =
    CStr string
  | CFloat real
  | CInt int
  | CBool bool
  | CJson json
  | CPy json
  | CNone

type_synonym out_row = "string \<Rightarrow> cell option"

definition render :: "pylib \<Rightarrow> cell \<Rightarrow> string" where
  "render L c =
     (case c of
        CStr s \<Rightarrow> s
      | CFloat r \<Rightarrow> str_float L r
      | CInt i \<Rightarrow> str_int L i
      | CBool b \<Rightarrow> (if b then ''True'' else ''False'')
      | CJson j \<Rightarrow> json_dumps L j
      | CPy v \<Rightarrow> (case v of JStr s \<Rightarrow> s | JNull \<Rightarrow> [] | _ \<Rightarrow> py_str L v)
      | CNone \<Rightarrow> [])"

definition ensure_log :: "csv_file option \<Rightarrow> csv_file" where
  "ensure_log f = (case f of None \<Rightarrow> [LOG_FIELDS] | Some c \<Rightarrow> c)"

definition csv_line :: "pylib \<Rightarrow> string list \<Rightarrow> out_row \<Rightarrow> string list" where
  "csv_line L cols r = map (\<lambda>k. case r k of None \<Rightarrow> [] | Some c \<Rightarrow> render L c) cols"

definition write_log :: "pylib \<Rightarrow> csv_file option \<Rightarrow> out_row \<Rightarrow> csv_file option" where
  "write_log L f r = Some (ensure_log f @ [csv_line L LOG_FIELDS r])"

text \<open>\<open>f"{x:.5f}"\<close> of a float that may be NaN or infinite.\<close>

definition fmt_fl :: "pylib \<Rightarrow> nat \<Rightarrow> fl \<Rightarrow> string" where
  "fmt_fl L n x =
     (case x of Fin r \<Rightarrow> fmt_fixed L n r | NaN \<Rightarrow> ''nan'' | PInf \<Rightarrow> ''inf'' | NInf \<Rightarrow> ''-inf'')"

text \<open>
  The settings \<open>run_loop\<close> reads from the configuration before the loop, in its order;
  the run id, the account type and the live flag come from the caller and the clock.
  The path of the ledger is read but not kept: the file is part of the state.
\<close>

record settings =
  reso :: json
  max_c :: int
  rr :: real
  risk_gbp :: real
  warmup :: int
  sig_rsi_buy :: int
  sig_rsi_sell :: int
  rid :: string
  env :: string
  live_flag :: bool
  s_enabled :: bool
  s_thr :: real
  s_logexp :: bool
  count_dry_as_trade :: bool

definition read_settings ::
  "pylib \<Rightarrow> json \<Rightarrow> string \<Rightarrow> string \<Rightarrow> bool \<Rightarrow> py_error + settings" where
  "read_settings L cfg run_id acc_type live =
     bindE (dget cfg ''resolution'' (JStr ''MINUTE_5'')) (\<lambda>v_reso.
     bindE (bindE (dget cfg ''max_candles'' (JInt 150)) (py_int L)) (\<lambda>v_max.
     bindE (bindE (dget cfg ''risk_reward'' (JFloat 2)) (py_float L)) (\<lambda>v_rr.
     bindE (bindE (dget cfg ''risk_per_trade_gbp'' (JInt 25)) (py_float L)) (\<lambda>v_risk.
     bindE (bindE (dget cfg ''warmup_bars'' (JInt 20)) (py_int L)) (\<lambda>v_warm.
     bindE (dget cfg ''min_signal_conf'' JNull) (\<lambda>msc0.
     let msc = py_or msc0 (JObj []) in
     bindE (bindE (dget msc ''rsi_buy_min'' (JInt 55)) (py_int L)) (\<lambda>v_buy.
     bindE (bindE (dget msc ''rsi_sell_max'' (JInt 45)) (py_int L)) (\<lambda>v_sell.
     bindE (dget cfg ''log_path'' JNull) (\<lambda>v_log.
     bindE (dget cfg ''sentiment'' JNull) (\<lambda>s0.
     let s_cfg = py_or s0 (JObj []) in
     bindE (dget s_cfg ''enabled'' (JBool False)) (\<lambda>v_sen.
     bindE (dget s_cfg ''model'' (JStr ''gpt-4o-mini'')) (\<lambda>v_model.
     bindE (bindE (dget s_cfg ''min_score'' (JFloat (15 / 100))) (py_float L)) (\<lambda>v_thr.
     bindE (bindE (dget s_cfg ''timeout_s'' (JInt 20)) (py_int L)) (\<lambda>v_timeout.
     bindE (dget s_cfg ''explain_in_log'' (JBool True)) (\<lambda>v_exp.
     bindE (risk_guards_cfg cfg) (\<lambda>rg_cfg.
     bindE (dget rg_cfg ''count_dry_as_trade'' (JBool True)) (\<lambda>v_dry.
     Inr \<lparr>reso = v_reso, max_c = v_max, rr = v_rr, risk_gbp = v_risk, warmup = v_warm,
          sig_rsi_buy = v_buy, sig_rsi_sell = v_sell, rid = run_id, env = acc_type,
          live_flag = live, s_enabled = truthy v_sen, s_thr = v_thr,
          s_logexp = truthy v_exp, count_dry_as_trade = truthy v_dry\<rparr>)))))))))))))))))"

text \<open>
  One watchlist item. Names and epics are strings, as the signatures of
  \<open>place_order\<close> and of the broker calls say; the model raises a TypeError on any
  other value.
\<close>

definition as_str :: "json \<Rightarrow> py_error + string" where
  "as_str v = (case v of JStr s \<Rightarrow> Inr s | _ \<Rightarrow> Inl TypeError)"

definition item_key :: "json \<Rightarrow> string \<Rightarrow> py_error + json" where
  "item_key item k =
     (case item of
        JObj kv \<Rightarrow> (case map_of kv k of None \<Rightarrow> Inl KeyError | Some v \<Rightarrow> Inr v)
      | _ \<Rightarrow> Inl TypeError)"

definition item_name :: "json \<Rightarrow> py_error + string" where
  "item_name item =
     bindE (dget item ''name'' JNull) (\<lambda>n.
     if truthy n then as_str n
     else bindE (dget item ''epic'' JNull) as_str)"

text \<open>
  What the world answers while one item is processed: the clock (one reading stands for
  all the readings made for the item), the broker and the sentiment oracle (\<open>JNull\<close>:
  unavailable).
\<close>

record world =
  w_now :: int
  w_ig :: ig_rest
  w_sentiment :: json

record run_state =
  st_ledger :: "csv_file option"
  st_baseline :: baseline_file
  st_trade_count :: int

definition logged :: "pylib \<Rightarrow> run_state \<Rightarrow> out_row \<Rightarrow> run_state" where
  "logged L st r = st\<lparr>st_ledger := write_log L (st_ledger st) r\<rparr>"

definition signal_name :: "signal \<Rightarrow> string" where
  "signal_name g = (case g of BUY \<Rightarrow> ''BUY'' | SELL \<Rightarrow> ''SELL'' | HOLD \<Rightarrow> ''HOLD'')"

definition base_row :: "pylib \<Rightarrow> settings \<Rightarrow> int \<Rightarrow> string \<Rightarrow> string \<Rightarrow> real \<Rightarrow> real \<Rightarrow> out_row" where
  "base_row L S now name epic stop_pts limit_pts =
     [''ts_utc'' \<mapsto> CStr (isoformat_utc L now @ ''Z''),
      ''run_id'' \<mapsto> CStr (rid S), ''env'' \<mapsto> CStr (env S), ''live'' \<mapsto> CBool (live_flag S),
      ''name'' \<mapsto> CStr name, ''epic'' \<mapsto> CStr epic, ''resolution'' \<mapsto> CPy (reso S),
      ''warmup_bars'' \<mapsto> CInt (warmup S), ''risk_gbp'' \<mapsto> CFloat (risk_gbp S),
      ''stop_points'' \<mapsto> CFloat stop_pts, ''limit_points'' \<mapsto> CFloat limit_pts]"

text \<open>The stop distance an order is placed with: never below the market's minimum.\<close>

definition effective_stop :: "real \<Rightarrow> real \<Rightarrow> real \<Rightarrow> real \<times> real" where
  "effective_stop rr_ratio stop_pts min_stop =
     (if stop_pts < min_stop then (min_stop, rr_ratio * min_stop)
      else (stop_pts, rr_ratio * stop_pts))"

text \<open>
  What is known of an item once its market has been read: the row every log line of
  the item starts from (with the stop and limit distances as configured), the market,
  its value per point and currency, and the stop and limit distances to trade with.
\<close>

record item_ctx =
  c_name :: string
  c_epic :: string
  c_row :: out_row
  c_market :: json
  c_vpp :: real
  c_curr :: json
  c_stop :: real
  c_limit :: real

definition sized_cells :: "pylib \<Rightarrow> item_ctx \<Rightarrow> real \<Rightarrow> real \<Rightarrow> real \<Rightarrow> out_row" where
  "sized_cells L C raw_size sz eff_risk =
     [''value_per_point'' \<mapsto> CFloat (c_vpp C), ''size_raw'' \<mapsto> CStr (fmt_fixed L 6 raw_size),
      ''size_final'' \<mapsto> CFloat sz, ''eff_risk_gbp'' \<mapsto> CStr (fmt_fixed L 2 eff_risk)]"

text \<open>Sizing, the post-size guard, and the order or dry run, each ending in a log line.\<close>

definition order_stage ::
  "pylib \<Rightarrow> world \<Rightarrow> settings \<Rightarrow> json \<Rightarrow> run_state \<Rightarrow> item_ctx \<Rightarrow> signal \<Rightarrow> out_row \<Rightarrow> int
     \<Rightarrow> py_error + run_state" where
  "order_stage L W S cfg st C sig sent_meta n_candles =
     (let common = c_row C ++ sent_meta ++
                   [''candle_count'' \<mapsto> CInt n_candles, ''signal'' \<mapsto> CStr (signal_name sig)]
      in case sized_order L (c_market C) (risk_gbp S) (c_stop C) ''down'' of
           Inl (RuntimeError msg) \<Rightarrow>
             Inr (logged L st (common ++
                    [''event'' \<mapsto> CStr ''ERROR'', ''status'' \<mapsto> CStr ''size_error'',
                     ''error'' \<mapsto> CStr msg]))
         | Inl e \<Rightarrow> Inl e
         | Inr (sz, raw_size) \<Rightarrow>
             (let eff_risk = sz * c_vpp C * c_stop C;
                  sized = common ++ sized_cells L C raw_size sz eff_risk
              in bindE (guard_postsize L (w_now W) (w_ig W) cfg (st_ledger st) (st_baseline st)
                          (c_name C) eff_risk) (\<lambda>(rg2, bf').
                 let st1 = st\<lparr>st_baseline := bf'\<rparr> in
                 if \<not> ok rg2 then
                   Inr (logged L st1 (sized ++
                          [''event'' \<mapsto> CStr ''NO_ORDER'', ''status'' \<mapsto> CStr ''risk_guard_post'',
                           ''rg2_reason'' \<mapsto> CStr (reason rg2),
                           ''rg2_meta_json'' \<mapsto> CJson (JObj (meta rg2))]))
                 else
                   bindE (place_order (w_ig W) (c_epic C) (signal_name sig) sz (c_stop C)
                            (c_limit C) (c_curr C) (live_flag S)) (\<lambda>out.
                   case out of
                     DryRun payload \<Rightarrow>
                       Inr ((logged L st1 (sized ++
                               [''event'' \<mapsto> CStr ''ORDER_DRY'', ''status'' \<mapsto> CStr ''ok'',
                                ''currency'' \<mapsto> CPy (c_curr C),
                                ''payload_json'' \<mapsto> CJson payload]))
                            \<lparr>st_trade_count :=
                               (if count_dry_as_trade S then st_trade_count st + 1
                                else st_trade_count st)\<rparr>)
                   | Placed payload resp \<Rightarrow>
                       bindE (dget resp ''dealReference'' (JStr [])) (\<lambda>deal_ref.
                       Inr ((logged L st1 (sized ++
                               [''event'' \<mapsto> CStr ''ORDER_SENT'', ''status'' \<mapsto> CStr ''ok'',
                                ''currency'' \<mapsto> CPy (c_curr C),
                                ''dealReference'' \<mapsto> CPy deal_ref,
                                ''payload_json'' \<mapsto> CJson payload]))
                            \<lparr>st_trade_count := st_trade_count st + 1\<rparr>))
                   | Refused code body payload \<Rightarrow>
                       Inr (logged L st1 (sized ++
                              [''event'' \<mapsto> CStr ''ORDER_FAIL'', ''status'' \<mapsto> CInt code,
                               ''currency'' \<mapsto> CPy (c_curr C), ''error'' \<mapsto> CStr body,
                               ''payload_json'' \<mapsto> CJson payload]))))))"

text \<open>The sentiment gate: the cells to log, and whether the item may go on.\<close>

definition no_sentiment :: out_row where
  "no_sentiment =
     [''sentiment_label'' \<mapsto> CStr [], ''sentiment_score'' \<mapsto> CStr [],
      ''sentiment_reason'' \<mapsto> CStr []]"

definition sentiment_gate ::
  "pylib \<Rightarrow> world \<Rightarrow> settings \<Rightarrow> py_error + (string + unit) \<times> out_row" where
  "sentiment_gate L W S =
     (if s_enabled S then
        (let sent = w_sentiment W in
         if \<not> truthy sent then Inr (Inl ''sentiment_unavailable'', no_sentiment)
         else
           bindE (dget sent ''label'' (JStr [])) (\<lambda>label.
           bindE (bindE (dget sent ''score'' (JFloat 0)) (py_float L)) (\<lambda>score.
           bindE (dget sent ''explanation'' (JStr [])) (\<lambda>expl.
           let sent_meta =
                 [''sentiment_label'' \<mapsto> CPy label,
                  ''sentiment_score'' \<mapsto> CStr (fmt_fixed L 2 score),
                  ''sentiment_reason'' \<mapsto> (if s_logexp S then CPy expl else CStr [])]
           in if score < s_thr S then Inr (Inl ''sentiment_block'', sent_meta)
              else Inr (Inr (), sent_meta)))))
      else Inr (Inr (), no_sentiment))"

text \<open>Prices, indicators, the signal and the sentiment gate.\<close>

definition signal_stage ::
  "pylib \<Rightarrow> world \<Rightarrow> settings \<Rightarrow> json \<Rightarrow> run_state \<Rightarrow> item_ctx \<Rightarrow> py_error + run_state" where
  "signal_stage L W S cfg st C =
     (case ig_price_closes (w_ig W) (c_epic C) of
        Inl (HTTPError code body) \<Rightarrow>
          Inr (logged L st (c_row C ++
                 [''event'' \<mapsto> CStr ''ERROR'', ''status'' \<mapsto> CInt code, ''error'' \<mapsto> CStr body,
                  ''candle_count'' \<mapsto> CInt 0]))
      | Inl e \<Rightarrow> Inl e
      | Inr closes \<Rightarrow>
          if closes = [] then
            Inr (logged L st (c_row C ++
                   [''event'' \<mapsto> CStr ''ERROR'', ''status'' \<mapsto> CStr ''no_candles'',
                    ''candle_count'' \<mapsto> CInt 0]))
          else
            (let df = with_indicators closes;
                 l = last df;
                 n = int (length df)
             in bindE (simple_signal df (real_of_int (sig_rsi_buy S)) (real_of_int (sig_rsi_sell S))
                         (warmup S)) (\<lambda>sig.
                let st1 = logged L st (c_row C ++
                            [''event'' \<mapsto> CStr ''SIGNAL'', ''status'' \<mapsto> CStr ''ok'',
                             ''candle_count'' \<mapsto> CInt n, ''signal'' \<mapsto> CStr (signal_name sig),
                             ''close'' \<mapsto> CStr (fmt_fl L 5 (close l)),
                             ''sma20'' \<mapsto> CStr (if isna (sma20 l) then [] else fmt_fl L 5 (sma20 l)),
                             ''rsi14'' \<mapsto> CStr (if isna (rsi14 l) then [] else fmt_fl L 2 (rsi14 l)),
                             ''value_per_point'' \<mapsto> CFloat (c_vpp C)])
                in if sig = HOLD then
                     Inr (logged L st1 (c_row C ++
                            [''event'' \<mapsto> CStr ''NO_ORDER'', ''status'' \<mapsto> CStr ''hold'',
                             ''candle_count'' \<mapsto> CInt n, ''signal'' \<mapsto> CStr (signal_name sig)]))
                   else
                     bindE (sentiment_gate L W S) (\<lambda>(verdict, sent_meta).
                     case verdict of
                       Inl why \<Rightarrow>
                         Inr (logged L st1 (c_row C ++ sent_meta ++
                                [''event'' \<mapsto> CStr ''NO_ORDER'', ''status'' \<mapsto> CStr why,
                                 ''candle_count'' \<mapsto> CInt n,
                                 ''signal'' \<mapsto> CStr (signal_name sig)]))
                     | Inr u \<Rightarrow> order_stage L W S cfg st1 C sig sent_meta n))))"

text \<open>
  The body of the loop: the pre-flight guard, the market and its dealing rules, the stop
  distance raised to the market's minimum, then the stages above.
\<close>

definition process_item ::
  "pylib \<Rightarrow> world \<Rightarrow> settings \<Rightarrow> json \<Rightarrow> run_state \<Rightarrow> json \<Rightarrow> py_error + run_state" where
  "process_item L W S cfg st item =
     bindE (item_name item) (\<lambda>name.
     bindE (bindE (item_key item ''epic'') as_str) (\<lambda>epic.
     bindE (bindE (item_key item ''stop_points'') (py_float L)) (\<lambda>stop_pts.
     let brow = base_row L S (w_now W) name epic stop_pts (rr S * stop_pts) in
     bindE (guard_preflight L (w_ig W) cfg (st_trade_count st)) (\<lambda>rg1.
     if \<not> ok rg1 then
       Inr (logged L st (brow ++
              [''event'' \<mapsto> CStr ''NO_ORDER'', ''status'' \<mapsto> CStr ''risk_guard_pre'',
               ''rg_reason'' \<mapsto> CStr (reason rg1), ''rg_meta_json'' \<mapsto> CJson (JObj (meta rg1))]))
     else
       (case ig_markets_by_epic (w_ig W) epic of
          Inl (HTTPError code body) \<Rightarrow>
            Inr (logged L st (brow ++
                   [''event'' \<mapsto> CStr ''ERROR'', ''status'' \<mapsto> CInt code, ''error'' \<mapsto> CStr body,
                    ''candle_count'' \<mapsto> CInt 0]))
        | Inl e \<Rightarrow> Inl e
        | Inr mk \<Rightarrow>
            bindE (value_per_point L mk) (\<lambda>vpp.
            bindE (min_stop_points L mk) (\<lambda>min_stop.
            bindE (min_size_and_step L mk) (\<lambda>(min_sz, step).
            bindE (currency_code mk) (\<lambda>curr.
            let (stop', limit') = effective_stop (rr S) stop_pts min_stop in
            signal_stage L W S cfg st
              \<lparr>c_name = name, c_epic = epic, c_row = brow, c_market = mk, c_vpp = vpp,
               c_curr = curr, c_stop = stop', c_limit = limit'\<rparr>)))))))))"

text \<open>\<open>for item in cfg.get("watchlist", [])\<close>; the \<open>k\<close>-th item meets the world \<open>Ws k\<close>.\<close>

definition py_iter :: "json \<Rightarrow> py_error + json list" where
  "py_iter v =
     (case v of
        JArr xs \<Rightarrow> Inr xs
      | JObj kv \<Rightarrow> Inr (map (\<lambda>p. JStr (fst p)) kv)
      | JStr s \<Rightarrow> Inr (map (\<lambda>c. JStr [c]) s)
      | _ \<Rightarrow> Inl TypeError)"

fun run_items ::
  "pylib \<Rightarrow> (nat \<Rightarrow> world) \<Rightarrow> settings \<Rightarrow> json \<Rightarrow> nat \<Rightarrow> run_state \<Rightarrow> json list
     \<Rightarrow> py_error + run_state" where
  "run_items L Ws S cfg k st [] = Inr st"
| "run_items L Ws S cfg k st (item # items) =
     bindE (process_item L (Ws k) S cfg st item) (\<lambda>st'. run_items L Ws S cfg (Suc k) st' items)"

definition run_loop ::
  "pylib \<Rightarrow> (nat \<Rightarrow> world) \<Rightarrow> json \<Rightarrow> string \<Rightarrow> string \<Rightarrow> bool \<Rightarrow> run_state
     \<Rightarrow> py_error + run_state" where
  "run_loop L Ws cfg run_id acc_type live st =
     bindE (read_settings L cfg run_id acc_type live) (\<lambda>S.
     bindE (bindE (dget cfg ''watchlist'' (JArr [])) py_iter) (\<lambda>items.
     run_items L Ws S cfg 0 st items))"

section \<open>confirm\_and\_enrich.py\<close>
































section \<open>An instance of the library\<close>

text \<open>
  The theorems below hold for every behaviour of the library functions. To run the
  program on concrete inputs an instance is needed: \<open>ref_lib\<close> reads and writes plain
  decimal numbers and UTC timestamps of the form \<open>YYYY-MM-DDTHH:MM:SS+00:00\<close>, counts
  days by the proleptic Gregorian calendar, and knows the zones \<open>UTC\<close> and
  \<open>Etc/UTC\<close>. It agrees with Python on the inputs of the examples.
\<close>

definition digit_of :: "char \<Rightarrow> nat option" where
  "digit_of c = (if 48 \<le> (of_char c :: nat) \<and> (of_char c :: nat) \<le> 57
                 then Some ((of_char c :: nat) - 48) else None)"

fun digits_acc :: "nat \<Rightarrow> string \<Rightarrow> nat option" where
  "digits_acc n [] = Some n"
| "digits_acc n (c # cs) =
     (case digit_of c of None \<Rightarrow> None | Some d \<Rightarrow> digits_acc (10 * n + d) cs)"

definition nat_of_digits :: "string \<Rightarrow> nat option" where
  "nat_of_digits s = (if s = [] then None else digits_acc 0 s)"

definition ref_int_of_str :: "string \<Rightarrow> int option" where
  "ref_int_of_str s =
     (case s of
        [] \<Rightarrow> None
      | c # cs \<Rightarrow>
          if c = CHR ''-'' then map_option (\<lambda>n. - int n) (nat_of_digits cs)
          else map_option int (nat_of_digits s))"

definition ref_unsigned_float :: "string \<Rightarrow> real option" where
  "ref_unsigned_float s =
     (case split_on (CHR ''.'') s of
        [a] \<Rightarrow> map_option real (nat_of_digits a)
      | [a, b] \<Rightarrow>
          (case (nat_of_digits a, nat_of_digits b) of
             (Some n, Some m) \<Rightarrow> Some (real n + real m / 10 ^ length b)
           | _ \<Rightarrow> None)
      | _ \<Rightarrow> None)"

definition ref_float_of_str :: "string \<Rightarrow> real option" where
  "ref_float_of_str s =
     (case s of
        [] \<Rightarrow> None
      | c # cs \<Rightarrow>
          if c = CHR ''-'' then map_option uminus (ref_unsigned_float cs)
          else ref_unsigned_float s)"

definition days_from_civil :: "int \<Rightarrow> int \<Rightarrow> int \<Rightarrow> int" where
  "days_from_civil y0 m d =
     (let y = (if m \<le> 2 then y0 - 1 else y0);
          era = y div 400;
          yoe = y - era * 400;
          doy = (153 * (if m > 2 then m - 3 else m + 9) + 2) div 5 + d - 1;
          doe = yoe * 365 + yoe div 4 - yoe div 100 + doy
      in era * 146097 + doe - 719468)"

definition civil_from_days :: "int \<Rightarrow> int \<times> int \<times> int" where
  "civil_from_days z0 =
     (let z = z0 + 719468;
          era = z div 146097;
          doe = z - era * 146097;
          yoe = (doe - doe div 1460 + doe div 36524 - doe div 146096) div 365;
          doy = doe - (365 * yoe + yoe div 4 - yoe div 100);
          mp = (5 * doy + 2) div 153;
          d = doy - (153 * mp + 2) div 5 + 1;
          m = (if mp < 10 then mp + 3 else mp - 9)
      in (yoe + era * 400 + (if m \<le> 2 then 1 else 0), m, d))"

definition usec_per_day :: int where
  "usec_per_day = 86400000000"

definition ref_fromisoformat :: "string \<Rightarrow> int option" where
  "ref_fromisoformat s =
     (if (length s = 19 \<or> length s = 25 \<and> drop 19 s = ''+00:00'') \<and>
         [s ! 4, s ! 7, s ! 10, s ! 13, s ! 16] = ''--T::''
      then (case map nat_of_digits
                   [take 4 s, take 2 (drop 5 s), take 2 (drop 8 s),
                    take 2 (drop 11 s), take 2 (drop 14 s), take 2 (drop 17 s)] of
              [Some y, Some mo, Some d, Some h, Some mi, Some sec] \<Rightarrow>
                if 1 \<le> mo \<and> mo \<le> 12 \<and> 1 \<le> d \<and> d \<le> 31 \<and> h \<le> 23 \<and> mi \<le> 59 \<and> sec \<le> 59
                then Some (days_from_civil (int y) (int mo) (int d) * usec_per_day
                           + (int h * 3600 + int mi * 60 + int sec) * 1000000)
                else None
            | _ \<Rightarrow> None)
      else None)"

definition digit_char :: "nat \<Rightarrow> char" where
  "digit_char n = char_of (48 + n mod 10)"

fun show_nat :: "nat \<Rightarrow> string" where
  "show_nat n = (if n < 10 then [digit_char n] else show_nat (n div 10) @ [digit_char n])"

definition pad :: "nat \<Rightarrow> string \<Rightarrow> string" where
  "pad w s = replicate (w - length s) (CHR ''0'') @ s"

definition show_int :: "int \<Rightarrow> string" where
  "show_int i = (if i < 0 then CHR ''-'' # show_nat (nat (- i)) else show_nat (nat i))"

definition ref_strftime_ymd :: "int \<Rightarrow> string" where
  "ref_strftime_ymd t =
     (case civil_from_days (t div usec_per_day) of
        (y, m, d) \<Rightarrow> pad 4 (show_int y) @ ''-'' @ pad 2 (show_int m) @ ''-'' @ pad 2 (show_int d))"

definition ref_astimezone :: "zone \<Rightarrow> int \<Rightarrow> wallclock" where
  "ref_astimezone z t =
     (let r = t mod usec_per_day in
      \<lparr>wc_day = t div usec_per_day, wc_hour = r div 3600000000,
       wc_minute = (r div 60000000) mod 60, wc_second = (r div 1000000) mod 60,
       wc_usec = r mod 1000000\<rparr>)"

definition ref_isoformat :: "int \<Rightarrow> string" where
  "ref_isoformat t =
     (let w = ref_astimezone UTC t in
      ref_strftime_ymd t @ ''T'' @ pad 2 (show_int (wc_hour w)) @ '':'' @
      pad 2 (show_int (wc_minute w)) @ '':'' @ pad 2 (show_int (wc_second w)) @ ''+00:00'')"

definition ref_fmt_fixed :: "nat \<Rightarrow> real \<Rightarrow> string" where
  "ref_fmt_fixed n x =
     (let k = nat \<lfloor>\<bar>x\<bar> * 10 ^ n + 1 / 2\<rfloor>;
          body = show_nat (k div 10 ^ n) @
                 (if n = 0 then [] else CHR ''.'' # pad n (show_nat (k mod 10 ^ n)))
      in if x < 0 \<and> k \<noteq> 0 then CHR ''-'' # body else body)"

text \<open>A simple rendering of JSON: no escapes in strings, numbers to six decimals.\<close>

fun ref_json_dumps :: "json \<Rightarrow> string" where
  "ref_json_dumps JNull = ''null''"
| "ref_json_dumps (JBool b) = (if b then ''true'' else ''false'')"
| "ref_json_dumps (JInt i) = show_int i"
| "ref_json_dumps (JFloat r) = ref_fmt_fixed 6 r"
| "ref_json_dumps (JStr s) = CHR 0x22 # s @ [CHR 0x22]"
| "ref_json_dumps (JArr xs) =
     ''['' @ concat (map (\<lambda>x. ref_json_dumps x @ '','') xs) @ '']''"
| "ref_json_dumps (JObj kv) =
     ''{'' @ concat (map (\<lambda>(k, v). CHR 0x22 # k @ [CHR 0x22] @ '':'' @ ref_json_dumps v @ '','') kv)
       @ ''}''"

definition ref_lib :: pylib where
  "ref_lib =
     \<lparr>float_of_str = ref_float_of_str,
      int_of_str = ref_int_of_str,
      fromisoformat = ref_fromisoformat,
      zoneinfo_known = (\<lambda>n. n = ''UTC'' \<or> n = ''Etc/UTC''),
      astimezone = ref_astimezone,
      isoformat_local = (\<lambda>z. ref_isoformat),
      isoformat_utc = ref_isoformat,
      strftime_ymd = ref_strftime_ymd,
      fmt_fixed = ref_fmt_fixed,
      str_float = ref_fmt_fixed 6,
      str_int = show_int,
      json_dumps = ref_json_dumps,
      py_str = (\<lambda>v. case v of JStr s \<Rightarrow> s | JNull \<Rightarrow> ''None'' | _ \<Rightarrow> ref_json_dumps v)\<rparr>"

section \<open>Notions used to state the properties\<close>

text \<open>The time of day of a local date and time.\<close>

definition tod :: "wallclock \<Rightarrow> int \<times> int \<times> int \<times> int" where
  "tod w = (wc_hour w, wc_minute w, wc_second w, wc_usec w)"

text \<open>The zone \<open>in_trading_window\<close> converts to: UTC when the name is not a known zone.\<close>

definition zone_of :: "pylib \<Rightarrow> json \<Rightarrow> zone" where
  "zone_of L tzname =
     (case tzname of JStr n \<Rightarrow> if zoneinfo_known L n then Zone n else UTC | _ \<Rightarrow> UTC)"

text \<open>A configuration with a trading window from 22:00 to 06:00.\<close>

definition night_cfg :: json where
  "night_cfg =
     JObj [(''risk_guards'',
            JObj [(''enabled'', JBool True),
                  (''trading_hours'',
                   JObj [(''enabled'', JBool True), (''timezone'', JStr ''UTC''),
                         (''start'', JStr ''22:00''), (''end'', JStr ''06:00'')])])]"

text \<open>
  A configuration with guards enabled, at most 5 trades per run and 3 open positions;
  a broker session whose every call fails.
\<close>

definition caps_cfg :: json where
  "caps_cfg =
     JObj [(''risk_guards'',
            JObj [(''enabled'', JBool True), (''max_trades_per_run'', JInt 5),
                  (''max_concurrent_positions'', JInt 3)])]"

definition down_ig :: ig_rest where
  "down_ig =
     \<lparr>ig_me = Inl (HTTPError 503 ''unavailable''),
      ig_positions = Inl (HTTPError 503 ''unavailable''),
      ig_markets_by_epic = (\<lambda>epic. Inl (HTTPError 503 ''unavailable'')),
      ig_price_closes = (\<lambda>epic. Inl (HTTPError 503 ''unavailable'')),
      ig_place_position = (\<lambda>payload. Inl (HTTPError 503 ''unavailable'')),
      ig_confirms = (\<lambda>ref k. Inl (HTTPError 503 ''unavailable''))\<rparr>"

text \<open>
  A ledger on 12 August 2025: two orders of the day (effective risk 50 and 30), a
  blocked candidate of the day and an order of the day before. \<open>noon\<close> is 12:00 UTC
  of that day, \<open>ten\<close> is 10:00.
\<close>

definition day_ledger :: csv_file where
  "day_ledger =
     [LOG_FIELDS,
      line_of LOG_FIELDS [(''ts_utc'', ''2025-08-11T15:00:00+00:00Z''), (''name'', ''FTSE 100''),
         (''event'', ''ORDER_SENT''), (''eff_risk_gbp'', ''40.00'')],
      line_of LOG_FIELDS [(''ts_utc'', ''2025-08-12T09:00:00+00:00Z''), (''name'', ''FTSE 100''),
         (''event'', ''ORDER_SENT''), (''eff_risk_gbp'', ''50.00'')],
      line_of LOG_FIELDS [(''ts_utc'', ''2025-08-12T09:05:00+00:00Z''), (''name'', ''Germany 40''),
         (''event'', ''NO_ORDER''), (''eff_risk_gbp'', ''300.00'')],
      line_of LOG_FIELDS [(''ts_utc'', ''2025-08-12T10:00:00+00:00Z''), (''name'', ''Germany 40''),
         (''event'', ''ORDER_DRY''), (''eff_risk_gbp'', ''30.00'')]]"

definition ten :: int where
  "ten = 1754992800000000"

definition noon :: int where
  "noon = 1755000000000000"

definition budget_cfg :: "real \<Rightarrow> json" where
  "budget_cfg b =
     JObj [(''risk_guards'',
            JObj [(''enabled'', JBool True), (''daily_risk_budget_gbp'', JFloat b)])]"

text \<open>
  A configuration with a cooldown of 30 minutes; 09:10, 09:31 and 00:05 UTC of
  12 August 2025; a ledger whose only order was sent at 23:50 UTC the day before.
\<close>

definition cooldown_cfg :: json where
  "cooldown_cfg =
     JObj [(''risk_guards'',
            JObj [(''enabled'', JBool True),
                  (''per_instrument'', JObj [(''cooldown_min'', JInt 30)])])]"

definition ten_past_nine :: int where
  "ten_past_nine = 1754989800000000"

definition nine_thirty_one :: int where
  "nine_thirty_one = 1754991060000000"

definition five_past_midnight :: int where
  "five_past_midnight = 1754957100000000"

definition eve_ledger :: csv_file where
  "eve_ledger =
     [LOG_FIELDS,
      line_of LOG_FIELDS [(''ts_utc'', ''2025-08-11T23:50:00+00:00Z''), (''name'', ''FTSE 100''),
         (''event'', ''ORDER_SENT''), (''eff_risk_gbp'', ''40.00'')]]"

text \<open>
  Three series of 16, 15 and 16 closes: one fall of 1 followed by one rise of 1 and then
  no move; no move at all; a rise of 1 at every bar. A frame of 20 bars each closing at
  5500 over a moving average of 5490 with an RSI of 58.
\<close>

definition dip_series :: "real option list" where
  "dip_series = map Some ([10, 9] @ replicate 14 10)"

definition flat_series :: "real option list" where
  "flat_series = map Some (replicate 15 10)"

definition rising_series :: "real option list" where
  "rising_series = map (\<lambda>i. Some (real i)) [0 ..< 16]"

definition bullish_frame :: "nat \<Rightarrow> bar_row list" where
  "bullish_frame k = replicate k \<lparr>close = Fin 5500, sma20 = Fin 5490, rsi14 = Fin 58\<rparr>"

text \<open>
  A market with 10 per point, a minimum deal size and step of 0.5 and a minimum stop
  distance of 8 points; a broker that serves it with 30 rising closes; a configuration
  risking 50 per trade, guards and sentiment off; watchlist items with stops of 60 and
  of 5 points.
\<close>

definition ftse_market :: json where
  "ftse_market =
     JObj [(''instrument'',
            JObj [(''contractSize'', JStr ''10''),
                  (''currencies'', JArr [JObj [(''code'', JStr ''GBP'')]])]),
           (''dealingRules'',
            JObj [(''minDealSize'', JObj [(''value'', JFloat (1 / 2))]),
                  (''minStopOrLimitDistance'', JObj [(''value'', JInt 8)])])]"

definition demo_ig :: ig_rest where
  "demo_ig =
     \<lparr>ig_me = Inr (JObj [(''accountInfo'', JObj [(''balance'', JFloat 10000)])]),
      ig_positions = Inr (JObj [(''positions'', JArr [])]),
      ig_markets_by_epic = (\<lambda>epic. Inr ftse_market),
      ig_price_closes = (\<lambda>epic. Inr (map (\<lambda>i. Some (100 + real i)) [0 ..< 30])),
      ig_place_position = (\<lambda>payload. Inr (JObj [(''dealReference'', JStr ''REF1'')])),
      ig_confirms = (\<lambda>ref k. Inl AttributeError)\<rparr>"

definition demo_world :: world where
  "demo_world = \<lparr>w_now = noon, w_ig = demo_ig, w_sentiment = JNull\<rparr>"

definition ftse_item :: "real \<Rightarrow> json" where
  "ftse_item stop =
     JObj [(''name'', JStr ''FTSE 100''), (''epic'', JStr ''IX.D.FTSE.CFD.IP''),
           (''stop_points'', JFloat stop)]"

definition demo_cfg :: json where
  "demo_cfg = JObj [(''risk_per_trade_gbp'', JInt 50), (''watchlist'', JArr [ftse_item 60])]"

definition demo_settings :: settings where
  "demo_settings =
     \<lparr>reso = JStr ''MINUTE_5'', max_c = 150, rr = 2, risk_gbp = 50, warmup = 20,
      sig_rsi_buy = 55, sig_rsi_sell = 45, rid = ''20250812T120000Z'', env = ''DEMO'',
      live_flag = False, s_enabled = False, s_thr = 15 / 100, s_logexp = True,
      count_dry_as_trade = True\<rparr>"

definition fresh_state :: run_state where
  "fresh_state = \<lparr>st_ledger = None, st_baseline = None, st_trade_count = 0\<rparr>"

text \<open>
  The item of that market once its market has been read, for a configured stop and the
  stop to trade with.
\<close>

definition ftse_ctx :: "real \<Rightarrow> real \<Rightarrow> item_ctx" where
  "ftse_ctx configured_stop stop =
     \<lparr>c_name = ''FTSE 100'', c_epic = ''IX.D.FTSE.CFD.IP'',
      c_row = base_row ref_lib demo_settings noon ''FTSE 100'' ''IX.D.FTSE.CFD.IP''
                configured_stop (2 * configured_stop),
      c_market = ftse_market, c_vpp = 10, c_curr = JStr ''GBP'', c_stop = stop,
      c_limit = 2 * stop\<rparr>"








section \<open>Properties of the program\<close>

subsection \<open>Helper facts\<close>

lemma bindE_simps [simp]:
  "bindE (Inl e) f = Inl e" "bindE (Inr v) f = f v"
  by (simp_all add: bindE_def)

lemma dget_truthy_default:
  assumes "dget th k (JBool False) = Inr en" and "truthy en"
  shows "truthy th"
  using assms by (cases th) (auto split: option.splits)

lemma in_window_wrap:
  assumes "e < s"
  shows "in_window local s e \<longleftrightarrow>
           (tod local \<ge> (fst s, snd s, 0, 0) \<or> tod local \<le> (fst e, snd e, 0, 0))"
  using assms
  by (cases s; cases e)
     (auto simp: in_window_def wc_key_def at_hm_def tod_def Let_def less_eq_prod_def
        less_prod_def)

lemma and_then_simps [simp]:
  "and_then (Inl e) bf rest = Inl e"
  "and_then (Inr (Inl res)) bf rest = Inr (res, bf)"
  "and_then (Inr (Inr m)) bf rest = rest m"
  by (simp_all add: and_then_def)

lemma blocked_eq [simp]: "blocked a m = blocked b m' \<longleftrightarrow> a = b \<and> m = m'"
  by (auto simp: blocked_def)

lemma blocked_neq_allowed [simp]:
  "blocked a m \<noteq> allowed b m'" "allowed b m' \<noteq> blocked a m"
  by (auto simp: blocked_def allowed_def)

lemma loss_limit_reason:
  "check_daily_loss_limit L ig bf rg m5 \<noteq> Inr (blocked ''BLOCK_DAILY_RISK_BUDGET'' m, b)"
  by (auto simp: check_daily_loss_limit_def Let_def bindE_def
        split: sum.splits prod.splits option.splits)

lemma budget_not_cooldown:
  "check_daily_risk_budget L now f rg planned m3 \<noteq>
     Inr (Inl (blocked ''BLOCK_COOLDOWN_INSTRUMENT'' m))"
  by (auto simp: check_daily_risk_budget_def Let_def bindE_def split: sum.splits)

lemma loss_not_cooldown:
  "check_daily_loss_limit L ig bf rg m5 \<noteq> Inr (blocked ''BLOCK_COOLDOWN_INSTRUMENT'' m, b)"
  by (auto simp: check_daily_loss_limit_def Let_def bindE_def
        split: sum.splits prod.splits option.splits)

lemma after_cooldown_reason:
  "and_then (check_daily_risk_budget L now f rg planned m3) bf
     (check_daily_loss_limit L ig bf rg) \<noteq> Inr (blocked ''BLOCK_COOLDOWN_INSTRUMENT'' m, b)"
  using budget_not_cooldown[of L now f rg planned m3 m] loss_not_cooldown[of L ig bf rg _ m b]
  by (auto simp: and_then_def split: sum.splits)

lemma last_order_time_latest:
  assumes "None \<notin> set (todays_order_times L now f name)"
  shows "last_order_time_instrument L now f name =
           Inr (if todays_order_times L now f name = [] then None
                else Some (Max (set (map the (todays_order_times L now f name)))))"
  using assms
  by (auto simp: last_order_time_instrument_def split: list.splits)

lemma length_diff_from [simp]: "length (diff_from p xs) = length xs"
  by (induction xs arbitrary: p) (auto split: option.splits)

lemma length_rolling_mean [simp]: "length (rolling_mean n xs) = length xs"
  by (simp add: rolling_mean_def)

lemma nth_rolling_mean:
  "i < length xs \<Longrightarrow>
     rolling_mean n xs ! i = window_mean n (drop (Suc i - n) (take (Suc i) xs))"
  by (simp add: rolling_mean_def)

lemma none_in_map_option: "None \<in> set (map (map_option f) w) \<longleftrightarrow> None \<in> set w"
  by (induction w) auto

lemma the_map_option:
  "None \<notin> set w \<Longrightarrow> map (the \<circ> map_option f) w = map (\<lambda>x. f (the x)) w"
  by (induction w) (auto simp: option.map_sel)

lemma window_mean_map:
  "window_mean n (map (map_option f) w) =
     (if n = 0 \<or> length w < n \<or> None \<in> set w then None
      else Some (sum_list (map (\<lambda>x. f (the x)) w) / real n))"
  unfolding window_mean_def none_in_map_option
  by (simp add: the_map_option)

lemma rsi_value_zero_down:
  "u \<ge> 0 \<Longrightarrow> rsi_value (Some u) (Some 0) = (if u > 0 then Fin 100 else NaN)"
  by (auto simp: rsi_value_def fl_of_def fl_sub_def)

lemma fl_less_asym: "fl_less a b \<Longrightarrow> \<not> fl_less b a"
  by (cases a; cases b) auto

lemma fl_less_nan [simp]: "\<not> fl_less NaN b" "\<not> fl_less a NaN"
  by (cases b; simp) (cases a; simp)

lemma fl_le_nan [simp]: "\<not> fl_le NaN b" "\<not> fl_le a NaN"
  by (cases b; simp) (cases a; simp)

lemmas ref_lib_simps =
  ref_lib_def ref_int_of_str_def nat_of_digits_def digit_of_def ref_astimezone_def
  usec_per_day_def

subsection \<open>Trading window\<close>

text \<open>
  C5. With the trading-hours section enabled and its start and end times well formed,
  when the end time is earlier than the start time, the window spans midnight: the
  local time is inside exactly when its time of day is at or after the start or at or
  before the end. (For 22:00 to 06:00, 23:30 is inside and 12:00 is outside: see the
  witness.)
\<close>

theorem in_trading_window_wraps:
  assumes "dget cfg ''risk_guards'' JNull = Inr rg0"
    and "dget (py_or rg0 (JObj [])) ''trading_hours'' JNull = Inr th"
    and "dget th ''enabled'' (JBool False) = Inr en" and "truthy en"
    and "dget th ''timezone'' (JStr ''Europe/London'') = Inr tzname"
    and "dget th ''start'' (JStr ''00:00'') = Inr start"
    and "dget th ''end'' (JStr ''23:59'') = Inr end'"
    and "hh_mm L start = Inr s" and "valid_hm s"
    and "hh_mm L end' = Inr e" and "valid_hm e"
    and "e < s"
    and "local = astimezone L (zone_of L tzname) now"
  shows "map_sum id fst (in_trading_window L cfg now) =
           Inr (tod local \<ge> (fst s, snd s, 0, 0) \<or> tod local \<le> (fst e, snd e, 0, 0))"
proof -
  have t: "truthy th" using assms(3,4) by (rule dget_truthy_default)
  then have p: "py_or th (JObj []) = th" by (simp add: py_or_def)
  show ?thesis
    using assms t p in_window_wrap[OF \<open>e < s\<close>, of local]
    by (simp add: in_trading_window_def Let_def zone_of_def)
qed

theorem in_trading_window_wraps_witness:
  "map_sum id fst (in_trading_window ref_lib night_cfg 1755041400000000) = Inr True \<and>
   map_sum id fst (in_trading_window ref_lib night_cfg 1755000000000000) = Inr False"
proof -
  let ?th = "JObj [(''enabled'', JBool True), (''timezone'', JStr ''UTC''),
                   (''start'', JStr ''22:00''), (''end'', JStr ''06:00'')]"
  let ?rg = "JObj [(''enabled'', JBool True), (''trading_hours'', ?th)]"
  have 1: "dget night_cfg ''risk_guards'' JNull = Inr ?rg"
    by (simp add: night_cfg_def)
  have 2: "dget (py_or ?rg (JObj [])) ''trading_hours'' JNull = Inr ?th"
    by (simp add: py_or_def)
  have 3: "dget ?th ''enabled'' (JBool False) = Inr (JBool True)" by simp
  have 4: "truthy (JBool True)" by simp
  have 5: "dget ?th ''timezone'' (JStr ''Europe/London'') = Inr (JStr ''UTC'')" by simp
  have 6: "dget ?th ''start'' (JStr ''00:00'') = Inr (JStr ''22:00'')" by simp
  have 7: "dget ?th ''end'' (JStr ''23:59'') = Inr (JStr ''06:00'')" by simp
  have 8: "hh_mm ref_lib (JStr ''22:00'') = Inr (22, 0)"
    by (simp add: hh_mm_def ref_lib_simps)
  have 9: "hh_mm ref_lib (JStr ''06:00'') = Inr (6, 0)"
    by (simp add: hh_mm_def ref_lib_simps)
  have v: "valid_hm (22, 0)" "valid_hm (6, 0)" by (simp_all add: valid_hm_def)
  have lt: "((6, 0) :: int \<times> int) < (22, 0)" by (simp add: less_prod_def)
  have a: "tod (astimezone ref_lib (zone_of ref_lib (JStr ''UTC'')) 1755041400000000)
             = (23, 30, 0, 0)"
    by (simp add: tod_def zone_of_def ref_lib_simps)
  have b: "tod (astimezone ref_lib (zone_of ref_lib (JStr ''UTC'')) 1755000000000000)
             = (12, 0, 0, 0)"
    by (simp add: tod_def zone_of_def ref_lib_simps)
  show ?thesis
    using in_trading_window_wraps[OF 1 2 3 4 5 6 7 8 v(1) 9 v(2) lt refl,
            of 1755041400000000]
          in_trading_window_wraps[OF 1 2 3 4 5 6 7 8 v(1) 9 v(2) lt refl,
            of 1755000000000000]
    by (simp add: a b less_eq_prod_def)
qed

subsection \<open>Pre-flight guard\<close>

text \<open>
  C9. With guards enabled, the per-run trade count below its cap and a positive cap on
  concurrent positions, a broker whose open-positions query raises is counted as
  having no open position, and the pre-flight guard allows (reason \<open>RG_OK\<close>, with
  \<open>open_positions = 0\<close> in the metadata).
\<close>

theorem guard_preflight_fail_open:
  assumes "risk_guards_cfg cfg = Inr rg"
    and "dget rg ''enabled'' (JBool False) = Inr en" and "truthy en"
    and "int_cfg L rg ''max_trades_per_run'' = Inr mtr"
    and "\<not> (mtr \<noteq> 0 \<and> run_trade_count \<ge> mtr)"
    and "int_cfg L rg ''max_concurrent_positions'' = Inr mcp" and "mcp > 0"
    and "ig_positions ig = Inl err"
  shows "open_positions_count ig = 0 \<and>
         (\<exists>m. guard_preflight L ig cfg run_trade_count = Inr (allowed ''RG_OK'' m) \<and>
              map_of m ''open_positions'' = Some (JInt 0))"
proof -
  have z: "open_positions_count ig = 0"
    using assms(8) by (simp add: open_positions_count_def)
  show ?thesis
    using assms z
    by (auto simp: guard_preflight_def Let_def update_conv')
qed

theorem guard_preflight_fail_open_witness:
  "open_positions_count down_ig = 0 \<and>
   (\<exists>m. guard_preflight ref_lib down_ig caps_cfg 0 = Inr (allowed ''RG_OK'' m) \<and>
        map_of m ''open_positions'' = Some (JInt 0))"
proof -
  let ?rg = "JObj [(''enabled'', JBool True), (''max_trades_per_run'', JInt 5),
                   (''max_concurrent_positions'', JInt 3)]"
  have 1: "risk_guards_cfg caps_cfg = Inr ?rg" by code_simp
  have 2: "dget ?rg ''enabled'' (JBool False) = Inr (JBool True)" by simp
  have 3: "truthy (JBool True)" by simp
  have 4: "int_cfg ref_lib ?rg ''max_trades_per_run'' = Inr 5"
    by (simp add: int_cfg_def py_or_def)
  have 5: "\<not> ((5::int) \<noteq> 0 \<and> 0 \<ge> (5::int))" by simp
  have 6: "int_cfg ref_lib ?rg ''max_concurrent_positions'' = Inr 3"
    by (simp add: int_cfg_def py_or_def)
  have 7: "(3::int) > 0" by simp
  have 8: "ig_positions down_ig = Inl (HTTPError 503 ''unavailable'')"
    by (simp add: down_ig_def)
  show ?thesis by (rule guard_preflight_fail_open[OF 1 2 3 4 5 6 7 8])
qed

subsection \<open>Daily risk budget\<close>

text \<open>
  A configured budget of 0 or less switches the budget check off: the post-size guard
  then never blocks with the daily-risk-budget reason, whatever has been committed.
\<close>

lemma daily_risk_budget_off:
  assumes "risk_guards_cfg cfg = Inr rg"
    and "dget rg ''enabled'' (JBool False) = Inr en" and "truthy en"
    and "check_trading_hours L now cfg (postsize_meta name planned) = Inr (Inr m1)"
    and "check_max_trades_per_day L now f rg name m1 = Inr (Inr m2)"
    and "check_cooldown L now f rg name m2 = Inr (Inr m3)"
    and "float_cfg L rg ''daily_risk_budget_gbp'' = Inr budget" and "budget \<le> 0"
  shows "guard_postsize L now ig cfg f bf name planned \<noteq>
           Inr (blocked ''BLOCK_DAILY_RISK_BUDGET'' m, b)"
  using assms loss_limit_reason[of L ig bf rg]
  by (auto simp: guard_postsize_def check_daily_risk_budget_def Let_def)

text \<open>
  C1, as stated, at a configured budget of 0: nothing is committed, the planned risk is
  25, so committed plus planned exceeds the budget by more than the tolerance; the
  guard does not block, it allows with \<open>RG2_OK\<close>.
\<close>

theorem daily_risk_budget_counterexample:
  "risk_guards_cfg (budget_cfg 0) =
     Inr (JObj [(''enabled'', JBool True), (''daily_risk_budget_gbp'', JFloat 0)]) \<and>
   float_cfg ref_lib (JObj [(''enabled'', JBool True), (''daily_risk_budget_gbp'', JFloat 0)])
     ''daily_risk_budget_gbp'' = Inr 0 \<and>
   today_committed_risk_gbp ref_lib noon None + 25 > 0 + tol \<and>
   map_sum id (\<lambda>r. (ok (fst r), reason (fst r)))
     (guard_postsize ref_lib noon down_ig (budget_cfg 0) None None ''FTSE 100'' 25)
     = Inr (True, ''RG2_OK'')"
  by code_simp

text \<open>
  C1, as amended. With guards enabled, the trading-hours, per-instrument-cap and
  cooldown checks passed and a budget above 0 configured, the post-size guard blocks
  with the daily-risk-budget reason if and only if the effective risk of the
  order-class rows of the current UTC day plus the planned effective risk, the latter
  taken as 0 when negative, exceeds the budget by more than \<open>1e-9\<close>. (A budget of 0 or
  less switches the check off. With budget 100, 80 committed and 25 planned the guard
  blocks: see the witness.)
\<close>

theorem daily_risk_budget_blocks_iff:
  assumes "risk_guards_cfg cfg = Inr rg"
    and "dget rg ''enabled'' (JBool False) = Inr en" and "truthy en"
    and "check_trading_hours L now cfg (postsize_meta name planned) = Inr (Inr m1)"
    and "check_max_trades_per_day L now f rg name m1 = Inr (Inr m2)"
    and "check_cooldown L now f rg name m2 = Inr (Inr m3)"
    and "float_cfg L rg ''daily_risk_budget_gbp'' = Inr budget" and "budget > 0"
  shows "(\<exists>m. guard_postsize L now ig cfg f bf name planned =
                Inr (blocked ''BLOCK_DAILY_RISK_BUDGET'' m, bf))
         \<longleftrightarrow> today_committed_risk_gbp L now f + max 0 planned > budget + tol"
  using assms loss_limit_reason[of L ig bf rg]
  by (auto simp: guard_postsize_def check_daily_risk_budget_def Let_def)

theorem daily_risk_budget_blocks_iff_witness:
  "today_committed_risk_gbp ref_lib noon (Some day_ledger) = 80 \<and>
   (\<exists>m. guard_postsize ref_lib noon down_ig (budget_cfg 100) (Some day_ledger) None
          ''FTSE 100'' 25 = Inr (blocked ''BLOCK_DAILY_RISK_BUDGET'' m, None))"
proof -
  let ?rg = "JObj [(''enabled'', JBool True), (''daily_risk_budget_gbp'', JFloat 100)]"
  let ?m = "[(''instrument'', JStr ''FTSE 100''), (''planned_eff_risk_gbp'', JFloat 25),
             (''trading_hours_enabled'', JBool False)]"
  have 1: "risk_guards_cfg (budget_cfg 100) = Inr ?rg" by code_simp
  have 2: "dget ?rg ''enabled'' (JBool False) = Inr (JBool True)" by simp
  have 3: "truthy (JBool True)" by simp
  have 4: "check_trading_hours ref_lib noon (budget_cfg 100) (postsize_meta ''FTSE 100'' 25)
             = Inr (Inr ?m)"
    by code_simp
  have 5: "check_max_trades_per_day ref_lib noon (Some day_ledger) ?rg ''FTSE 100'' ?m
             = Inr (Inr ?m)"
    by (simp add: check_max_trades_per_day_def per_instrument_cfg_def int_cfg_def py_or_def)
  have 6: "check_cooldown ref_lib noon (Some day_ledger) ?rg ''FTSE 100'' ?m = Inr (Inr ?m)"
    by (simp add: check_cooldown_def cooldown_min_cfg_def per_instrument_cfg_def
          int_cfg_def py_or_def)
  have 7: "float_cfg ref_lib ?rg ''daily_risk_budget_gbp'' = Inr 100"
    by (simp add: float_cfg_def py_or_def)
  have 8: "(100::real) > 0" by simp
  have c: "today_committed_risk_gbp ref_lib noon (Some day_ledger) = 80" by code_simp
  have "100 + tol < today_committed_risk_gbp ref_lib noon (Some day_ledger) + max 0 25"
    by (simp add: c tol_def)
  with daily_risk_budget_blocks_iff[OF 1 2 3 4 5 6 7 8, of down_ig None] c
  show ?thesis by simp
qed

subsection \<open>Cooldown\<close>

text \<open>
  C6, as stated, across midnight: the ledger's only row is an order sent for the
  instrument at 23:50 UTC; at 00:05 UTC the next day the cooldown of 30 minutes has 15
  minutes to run, and the guard allows with \<open>RG2_OK\<close>, because the row is not of the
  current UTC day.
\<close>

theorem cooldown_counterexample:
  "map (\<lambda>r. (sget r ''name'', is_order_event r, parse_ts ref_lib (sget r ''ts_utc'')))
     (read_csv_rows (Some eve_ledger)) = [(''FTSE 100'', True, Some 1754956200000000)] \<and>
   bindE (risk_guards_cfg cooldown_cfg) (cooldown_min_cfg ref_lib) = Inr 30 \<and>
   five_past_midnight < 1754956200000000 + timedelta_minutes 30 \<and>
   map_sum id (\<lambda>r. (ok (fst r), reason (fst r)))
     (guard_postsize ref_lib five_past_midnight down_ig cooldown_cfg (Some eve_ledger) None
        ''FTSE 100'' 25)
     = Inr (True, ''RG2_OK'')"
  by code_simp

text \<open>
  C6, as amended. With guards enabled, a cooldown above 0 and the trading-hours and
  per-instrument-cap checks passed, the post-size guard blocks with the cooldown reason
  if and only if the instrument has an order-class row of the current UTC day and
  \<open>now\<close> is before the latest timestamp of those rows plus the cooldown (the
  timestamps of those rows being readable). With a cooldown of 30 minutes and the last
  order at 09:00, the guard blocks at 09:10 and not at 09:31: see the witness.
\<close>

theorem cooldown_blocks_iff:
  assumes "risk_guards_cfg cfg = Inr rg"
    and "dget rg ''enabled'' (JBool False) = Inr en" and "truthy en"
    and "check_trading_hours L now cfg (postsize_meta name planned) = Inr (Inr m1)"
    and "check_max_trades_per_day L now f rg name m1 = Inr (Inr m2)"
    and "cooldown_min_cfg L rg = Inr c" and "c > 0"
    and "None \<notin> set (todays_order_times L now f name)"
  shows "(\<exists>m. guard_postsize L now ig cfg f bf name planned =
                Inr (blocked ''BLOCK_COOLDOWN_INSTRUMENT'' m, bf))
         \<longleftrightarrow> (todays_order_times L now f name \<noteq> [] \<and>
              now < Max (set (map the (todays_order_times L now f name)))
                      + timedelta_minutes c)"
  using assms(1-7) last_order_time_latest[OF assms(8)]
    after_cooldown_reason[of L now f rg planned _ bf ig]
  by (auto simp: guard_postsize_def check_cooldown_def Let_def)

theorem cooldown_blocks_iff_witness:
  "(\<exists>m. guard_postsize ref_lib ten_past_nine down_ig cooldown_cfg (Some day_ledger) None
          ''FTSE 100'' 25 = Inr (blocked ''BLOCK_COOLDOWN_INSTRUMENT'' m, None)) \<and>
   \<not> (\<exists>m. guard_postsize ref_lib nine_thirty_one down_ig cooldown_cfg (Some day_ledger) None
          ''FTSE 100'' 25 = Inr (blocked ''BLOCK_COOLDOWN_INSTRUMENT'' m, None))"
proof -
  let ?rg = "JObj [(''enabled'', JBool True),
                   (''per_instrument'', JObj [(''cooldown_min'', JInt 30)])]"
  let ?m = "[(''instrument'', JStr ''FTSE 100''), (''planned_eff_risk_gbp'', JFloat 25),
             (''trading_hours_enabled'', JBool False)]"
  have 1: "risk_guards_cfg cooldown_cfg = Inr ?rg" by code_simp
  have 2: "dget ?rg ''enabled'' (JBool False) = Inr (JBool True)" by simp
  have 3: "truthy (JBool True)" by simp
  have 4: "check_trading_hours ref_lib now cooldown_cfg (postsize_meta ''FTSE 100'' 25)
             = Inr (Inr ?m)" for now
    by (simp add: check_trading_hours_def in_trading_window_def cooldown_cfg_def py_or_def
          postsize_meta_def dict_update_def)
  have 5: "check_max_trades_per_day ref_lib now (Some day_ledger) ?rg ''FTSE 100'' ?m
             = Inr (Inr ?m)" for now
    by (simp add: check_max_trades_per_day_def per_instrument_cfg_def int_cfg_def py_or_def)
  have 6: "cooldown_min_cfg ref_lib ?rg = Inr 30"
    by (simp add: cooldown_min_cfg_def per_instrument_cfg_def int_cfg_def py_or_def)
  have 7: "(30::int) > 0" by simp
  have a: "todays_order_times ref_lib ten_past_nine (Some day_ledger) ''FTSE 100''
             = [Some 1754989200000000]"
    by code_simp
  have b: "todays_order_times ref_lib nine_thirty_one (Some day_ledger) ''FTSE 100''
             = [Some 1754989200000000]"
    by code_simp
  have 8: "None \<notin> set (todays_order_times ref_lib ten_past_nine (Some day_ledger) ''FTSE 100'')"
    by (simp add: a)
  have 9: "None \<notin> set (todays_order_times ref_lib nine_thirty_one (Some day_ledger) ''FTSE 100'')"
    by (simp add: b)
  show ?thesis
    using cooldown_blocks_iff[OF 1 2 3 4 5 6 7 8, of down_ig None]
          cooldown_blocks_iff[OF 1 2 3 4 5 6 7 9, of down_ig None]
    unfolding a b
    by (simp add: timedelta_minutes_def ten_past_nine_def nine_thirty_one_def)
qed

subsection \<open>Indicators\<close>

text \<open>
  C2. The RSI of the pipeline is not Wilder's. On 16 closes that fall by 1, rise by 1
  and then stay, every variant is null for the first 14 bars. At the 16th bar the
  pipeline's rolling means have dropped the fall from their window: the average of the
  down-moves is 0 and the RSI is 100. Wilder's smoothing with factor 1/14 keeps the
  fall: seeded with the mean of the first 14 moves it gives RS = 1 and an RSI of 50,
  and seeded with the first move (the \<open>rsi\<close> of rest\_signals.py) it gives RS = 1/13
  and an RSI of 50/7.
\<close>

theorem rsi_is_not_wilder:
  "rsi dip_series 14 = replicate 14 NaN @ [Fin 50, Fin 100] \<and>
   rsi_wilder_seeded dip_series 14 = replicate 14 NaN @ [Fin 50, Fin 50] \<and>
   rsi_wilder dip_series 14 = replicate 14 NaN @ [Fin (50 / 7), Fin (50 / 7)]"
  by code_simp

text \<open>
  C7, as stated, on a flat series: at the 15th of 15 equal closes the 14-period average
  of the down-moves is exactly 0, and the RSI is NaN, not 100.
\<close>

theorem rsi_flat_counterexample:
  "avg_down flat_series 14 ! 14 = Some 0 \<and> rsi flat_series 14 ! 14 = NaN"
  by code_simp

text \<open>
  C7, as amended. At a bar where the average of the down-moves is exactly 0, the
  average of the up-moves is defined and not negative; the RSI is 100 when that
  average is positive, and NaN when it is 0 too (no move in the window).
\<close>

theorem rsi_when_avg_down_zero:
  assumes "i < length s" and "avg_down s n ! i = Some 0"
  shows "\<exists>u. avg_up s n ! i = Some u \<and> u \<ge> 0 \<and>
             rsi s n ! i = (if u > 0 then Fin 100 else NaN)"
proof -
  let ?w = "drop (Suc i - n) (take (Suc i) (diff s))"
  have i: "i < length (diff s)" using assms(1) by (simp add: diff_def)
  have dn: "avg_down s n ! i = window_mean n (map (map_option (\<lambda>x. - min x 0)) ?w)"
    using i by (simp add: avg_down_def neg_clip_upper0_def nth_rolling_mean drop_map take_map)
  have up: "avg_up s n ! i = window_mean n (map (map_option (max 0)) ?w)"
    using i by (simp add: avg_up_def clip_lower0_def nth_rolling_mean drop_map take_map)
  from assms(2) dn have ok: "\<not> (n = 0 \<or> length ?w < n \<or> None \<in> set ?w)"
    by (auto simp: window_mean_map split: if_splits)
  define u where "u = sum_list (map (\<lambda>x. max 0 (the x)) ?w) / real n"
  have u: "avg_up s n ! i = Some u"
    using ok by (simp add: up window_mean_map u_def)
  have "sum_list (map (\<lambda>x. max 0 (the x)) ?w) \<ge> 0"
    by (rule sum_list_nonneg) auto
  then have nn: "u \<ge> 0" by (simp add: u_def)
  have "rsi s n ! i = rsi_value (avg_up s n ! i) (avg_down s n ! i)"
    using i by (simp add: rsi_def avg_up_def avg_down_def clip_lower0_def neg_clip_upper0_def)
  then show ?thesis
    using u nn assms(2) rsi_value_zero_down[OF nn] by auto
qed

theorem rsi_when_avg_down_zero_witness:
  "avg_down rising_series 14 ! 14 = Some 0 \<and> avg_up rising_series 14 ! 14 = Some 1 \<and>
   rsi rising_series 14 ! 14 = Fin 100"
proof -
  have l: "14 < length rising_series" by (simp add: rising_series_def)
  have d: "avg_down rising_series 14 ! 14 = Some 0" by code_simp
  have u: "avg_up rising_series 14 ! 14 = Some 1" by code_simp
  from rsi_when_avg_down_zero[OF l d] u d show ?thesis by auto
qed

subsection \<open>Signal\<close>

text \<open>
  C8. A frame with fewer rows than \<open>warmup_bars\<close> gives HOLD. Otherwise, on the last
  row of the frame, the signal is BUY exactly when close > sma20 and rsi14 >= the buy
  threshold, SELL exactly when close < sma20 and rsi14 <= the sell threshold, and HOLD
  exactly when neither holds (a comparison with a null indicator is false).
\<close>

theorem simple_signal_rule:
  "(int (length df) < w \<longrightarrow> simple_signal df b s w = Inr HOLD) \<and>
   (\<not> int (length df) < w \<and> df \<noteq> [] \<longrightarrow>
      (simple_signal df b s w = Inr BUY \<longleftrightarrow>
         fl_less (sma20 (last df)) (close (last df)) \<and> fl_le (Fin b) (rsi14 (last df))) \<and>
      (simple_signal df b s w = Inr SELL \<longleftrightarrow>
         fl_less (close (last df)) (sma20 (last df)) \<and> fl_le (rsi14 (last df)) (Fin s)) \<and>
      (simple_signal df b s w = Inr HOLD \<longleftrightarrow>
         \<not> (fl_less (sma20 (last df)) (close (last df)) \<and> fl_le (Fin b) (rsi14 (last df))) \<and>
         \<not> (fl_less (close (last df)) (sma20 (last df)) \<and> fl_le (rsi14 (last df)) (Fin s))))"
  using fl_less_asym[of "sma20 (last df)" "close (last df)"]
  by (auto simp: simple_signal_def Let_def isna_def)

theorem simple_signal_rule_witness:
  "simple_signal (bullish_frame 19) 55 45 20 = Inr HOLD \<and>
   simple_signal (bullish_frame 20) 55 45 20 = Inr BUY"
proof -
  have a: "int (length (bullish_frame 19)) < 20" by (simp add: bullish_frame_def)
  have b: "\<not> int (length (bullish_frame 20)) < 20 \<and> bullish_frame 20 \<noteq> []"
    by (simp add: bullish_frame_def)
  have c: "fl_less (sma20 (last (bullish_frame 20))) (close (last (bullish_frame 20))) \<and>
           fl_le (Fin 55) (rsi14 (last (bullish_frame 20)))"
    by (simp add: bullish_frame_def)
  from simple_signal_rule[of "bullish_frame 19" 20 55 45]
       simple_signal_rule[of "bullish_frame 20" 20 55 45] a b c
  show ?thesis by blast
qed

subsection \<open>Sizing and the order row\<close>

lemma show_nat_values:
  "show_nat 0 = ''0''" "show_nat 40 = ''40''" "show_nat 300 = ''300''"
proof -
  have d: "digit_char 0 = CHR ''0''" "digit_char 3 = CHR ''3''" "digit_char 4 = CHR ''4''"
    by code_simp+
  show "show_nat 0 = ''0''"
    by (simp add: show_nat.simps[of 0] d del: show_nat.simps)
  show "show_nat 40 = ''40''"
    using d by (simp add: show_nat.simps[of 40] show_nat.simps[of 4] digit_char_def
                     del: show_nat.simps)
  show "show_nat 300 = ''300''"
    using d by (simp add: show_nat.simps[of 300] show_nat.simps[of 30] show_nat.simps[of 3]
                          digit_char_def del: show_nat.simps)
qed


lemma snap_multiple:
  assumes "step > 0"
  shows "\<exists>k::int. snap v step mode = of_int k * step"
  using assms by (auto simp: snap_def Let_def)

lemma order_stage_rows:
  assumes sized: "sized_order L (c_market C) (risk_gbp S) (c_stop C) ''down'' = Inr (sz, raw)"
    and guard: "guard_postsize L (w_now W) (w_ig W) cfg (st_ledger st) (st_baseline st)
                  (c_name C) (sz * c_vpp C * c_stop C) = Inr (rg2, bf')"
    and place: "\<not> ok rg2 \<or>
                (\<exists>out. place_order (w_ig W) (c_epic C) (signal_name sig) sz (c_stop C)
                         (c_limit C) (c_curr C) (live_flag S) = Inr out \<and>
                       (\<forall>p resp. out = Placed p resp \<longrightarrow> (\<exists>kv. resp = JObj kv)))"
  shows "\<exists>r st'. order_stage L W S cfg st C sig sm n = Inr st' \<and>
           st_ledger st' = write_log L (st_ledger st) r \<and>
           r ''size_raw'' = Some (CStr (fmt_fixed L 6 raw)) \<and>
           r ''size_final'' = Some (CFloat sz) \<and>
           r ''eff_risk_gbp'' = Some (CStr (fmt_fixed L 2 (sz * c_vpp C * c_stop C))) \<and>
           r ''stop_points'' = (c_row C ++ sm) ''stop_points'' \<and>
           (ok rg2 \<longrightarrow>
              r ''payload_json'' =
                Some (CJson (order_payload (c_epic C) (signal_name sig) sz (c_stop C)
                               (c_limit C) (c_curr C))))"
proof (cases "ok rg2")
  case False
  then show ?thesis
    using sized guard
    apply (simp add: order_stage_def Let_def logged_def sized_cells_def)
    apply (intro exI conjI, rule refl, simp_all)
    done
next
  case True
  with place obtain out where
    out: "place_order (w_ig W) (c_epic C) (signal_name sig) sz (c_stop C)
            (c_limit C) (c_curr C) (live_flag S) = Inr out"
    and resp: "\<forall>p resp. out = Placed p resp \<longrightarrow> (\<exists>kv. resp = JObj kv)"
    by blast
  have pl: "\<And>p. out = DryRun p \<or> out = Refused c b p \<or> out = Placed p resp \<Longrightarrow>
      p = order_payload (c_epic C) (signal_name sig) sz (c_stop C) (c_limit C) (c_curr C)"
    for c b resp
    using out by (auto simp: place_order_def Let_def split: if_splits sum.splits py_error.splits)
  show ?thesis
  proof (cases out)
    case (DryRun p)
    with pl[of p] True sized guard out show ?thesis using True
      apply (simp add: order_stage_def Let_def logged_def sized_cells_def)
      apply (intro exI conjI, rule refl, simp_all)
      done
  next
    case (Placed p resp')
    with resp obtain kv where "resp' = JObj kv" by blast
    with Placed pl[of p _ _ resp'] True sized guard out show ?thesis
      apply (simp add: order_stage_def Let_def logged_def sized_cells_def)
      apply (intro exI conjI, rule refl, simp_all)
      done
  next
    case (Refused c b p)
    with pl[of p c b] True sized guard out show ?thesis
      apply (simp add: order_stage_def Let_def logged_def sized_cells_def)
      apply (intro exI conjI, rule refl, simp_all)
      done
  qed
qed




text \<open>
  C10. For a watchlist item whose configured \<open>stop_points\<close> is below the minimum stop
  distance of the market, the run loop goes on with the stop distance raised to that
  minimum and the limit distance \<open>rr\<close> * the raised stop: the order is sized from the
  raised stop, the effective risk of the ledger row is final size * point value *
  raised stop, and the order payload carries the raised stop and the recomputed limit,
  while the row's \<open>stop_points\<close> cell keeps the configured value (the raise is not
  reported). (FTSE item with stop 5 and a market minimum of 8: see the witness.)
\<close>

theorem stop_raised_to_market_minimum:
  assumes item: "item_name item = Inr name"
      "bindE (item_key item ''epic'') as_str = Inr epic"
      "bindE (item_key item ''stop_points'') (py_float L) = Inr stop"
    and pre: "guard_preflight L (w_ig W) cfg (st_trade_count st) = Inr rg1" "ok rg1"
    and market: "ig_markets_by_epic (w_ig W) epic = Inr mk"
      "value_per_point L mk = Inr vpp" "min_stop_points L mk = Inr min_stop"
      "min_size_and_step L mk = Inr ms" "currency_code mk = Inr ccy"
    and below: "stop < min_stop"
    and C: "C = \<lparr>c_name = name, c_epic = epic,
                  c_row = base_row L S (w_now W) name epic stop (rr S * stop),
                  c_market = mk, c_vpp = vpp, c_curr = ccy, c_stop = min_stop,
                  c_limit = rr S * min_stop\<rparr>"
    and sized: "sized_order L mk (risk_gbp S) min_stop ''down'' = Inr (sz, raw)"
    and guard: "guard_postsize L (w_now W) (w_ig W) cfg (st_ledger st1) (st_baseline st1)
                  name (sz * vpp * min_stop) = Inr (rg2, bf')"
    and place: "\<not> ok rg2 \<or>
                (\<exists>out. place_order (w_ig W) epic (signal_name sig) sz min_stop
                         (rr S * min_stop) ccy (live_flag S) = Inr out \<and>
                       (\<forall>p resp. out = Placed p resp \<longrightarrow> (\<exists>kv. resp = JObj kv)))"
    and sm: "sm ''stop_points'' = None"
  shows "process_item L W S cfg st item = signal_stage L W S cfg st C \<and>
         (\<exists>r st'. order_stage L W S cfg st1 C sig sm n = Inr st' \<and>
            st_ledger st' = write_log L (st_ledger st1) r \<and>
            r ''size_final'' = Some (CFloat sz) \<and>
            r ''eff_risk_gbp'' = Some (CStr (fmt_fixed L 2 (sz * vpp * min_stop))) \<and>
            r ''stop_points'' = Some (CFloat stop) \<and>
            (ok rg2 \<longrightarrow>
               r ''payload_json'' =
                 Some (CJson (order_payload epic (signal_name sig) sz min_stop
                                (rr S * min_stop) ccy))))"
proof -
  have p: "process_item L W S cfg st item = signal_stage L W S cfg st C"
    using item pre market below
    by (cases ms) (simp add: process_item_def effective_stop_def C Let_def)
  have d: "sized_order L (c_market C) (risk_gbp S) (c_stop C) ''down'' = Inr (sz, raw)"
    using sized by (simp add: C)
  have g: "guard_postsize L (w_now W) (w_ig W) cfg (st_ledger st1) (st_baseline st1)
             (c_name C) (sz * c_vpp C * c_stop C) = Inr (rg2, bf')"
    using guard by (simp add: C)
  have pl: "\<not> ok rg2 \<or>
            (\<exists>out. place_order (w_ig W) (c_epic C) (signal_name sig) sz (c_stop C)
                     (c_limit C) (c_curr C) (live_flag S) = Inr out \<and>
                   (\<forall>p resp. out = Placed p resp \<longrightarrow> (\<exists>kv. resp = JObj kv)))"
    using place by (simp add: C)
  have row: "(c_row C ++ sm) ''stop_points'' = Some (CFloat stop)"
    using sm by (simp add: C base_row_def map_add_def)
  from order_stage_rows[OF d g pl, of sm n] row
  have "\<exists>r st'. order_stage L W S cfg st1 C sig sm n = Inr st' \<and>
            st_ledger st' = write_log L (st_ledger st1) r \<and>
            r ''size_final'' = Some (CFloat sz) \<and>
            r ''eff_risk_gbp'' = Some (CStr (fmt_fixed L 2 (sz * vpp * min_stop))) \<and>
            r ''stop_points'' = Some (CFloat stop) \<and>
            (ok rg2 \<longrightarrow>
               r ''payload_json'' =
                 Some (CJson (order_payload epic (signal_name sig) sz min_stop
                                (rr S * min_stop) ccy)))"
    by (auto simp: C)
  with p show ?thesis by blast
qed

theorem stop_raised_to_market_minimum_witness:
  "process_item ref_lib demo_world demo_settings demo_cfg fresh_state (ftse_item 5)
     = signal_stage ref_lib demo_world demo_settings demo_cfg fresh_state (ftse_ctx 5 8) \<and>
   (\<exists>r st'. order_stage ref_lib demo_world demo_settings demo_cfg fresh_state (ftse_ctx 5 8)
               BUY no_sentiment 30 = Inr st' \<and>
            st_ledger st' = write_log ref_lib (st_ledger fresh_state) r \<and>
            r ''size_final'' = Some (CFloat (1 / 2)) \<and>
            r ''eff_risk_gbp'' = Some (CStr ''40.00'') \<and>
            r ''stop_points'' = Some (CFloat 5) \<and>
            r ''payload_json'' =
              Some (CJson (order_payload ''IX.D.FTSE.CFD.IP'' ''BUY'' (1 / 2) 8 16
                             (JStr ''GBP''))))"
proof -
  have 1: "item_name (ftse_item 5) = Inr ''FTSE 100''" by code_simp
  have 2: "bindE (item_key (ftse_item 5) ''epic'') as_str = Inr ''IX.D.FTSE.CFD.IP''"
    by code_simp
  have 3: "bindE (item_key (ftse_item 5) ''stop_points'') (py_float ref_lib) = Inr 5"
    by code_simp
  have 4: "guard_preflight ref_lib (w_ig demo_world) demo_cfg (st_trade_count fresh_state)
             = Inr (allowed ''RG_DISABLED'' [])"
    by code_simp
  have 5: "ok (allowed ''RG_DISABLED'' [])" by (simp add: allowed_def)
  have 6: "ig_markets_by_epic (w_ig demo_world) ''IX.D.FTSE.CFD.IP'' = Inr ftse_market"
    by (simp add: demo_world_def demo_ig_def)
  have 7: "value_per_point ref_lib ftse_market = Inr 10" by code_simp
  have 8: "min_stop_points ref_lib ftse_market = Inr 8" by code_simp
  have 9: "min_size_and_step ref_lib ftse_market = Inr (1 / 2, 1 / 2)" by code_simp
  have 10: "currency_code ftse_market = Inr (JStr ''GBP'')" by code_simp
  have 11: "(5::real) < 8" by simp
  have 12: "ftse_ctx 5 8 =
              \<lparr>c_name = ''FTSE 100'', c_epic = ''IX.D.FTSE.CFD.IP'',
               c_row = base_row ref_lib demo_settings (w_now demo_world) ''FTSE 100''
                         ''IX.D.FTSE.CFD.IP'' 5 (rr demo_settings * 5),
               c_market = ftse_market, c_vpp = 10, c_curr = JStr ''GBP'', c_stop = 8,
               c_limit = rr demo_settings * 8\<rparr>"
    by (simp add: ftse_ctx_def demo_world_def demo_settings_def)
  have 13: "sized_order ref_lib ftse_market (risk_gbp demo_settings) 8 ''down''
              = Inr (1 / 2, 5 / 8)"
    by code_simp
  have 14: "guard_postsize ref_lib (w_now demo_world) (w_ig demo_world) demo_cfg
              (st_ledger fresh_state) (st_baseline fresh_state) ''FTSE 100'' (1 / 2 * 10 * 8)
            = Inr (allowed ''RG_DISABLED'' (postsize_meta ''FTSE 100'' 40), None)"
    by code_simp
  have 15: "\<not> ok (allowed ''RG_DISABLED'' (postsize_meta ''FTSE 100'' 40)) \<or>
            (\<exists>out. place_order (w_ig demo_world) ''IX.D.FTSE.CFD.IP'' (signal_name BUY)
                      (1 / 2) 8 (rr demo_settings * 8) (JStr ''GBP'')
                      (live_flag demo_settings) = Inr out \<and>
                   (\<forall>p resp. out = Placed p resp \<longrightarrow> (\<exists>kv. resp = JObj kv)))"
    by (simp add: place_order_def demo_settings_def)
  have 16: "no_sentiment ''stop_points'' = None" by (simp add: no_sentiment_def)
  have f: "fmt_fixed ref_lib 2 (1 / 2 * 10 * 8) = ''40.00''"
    using show_nat_values
    by (simp add: ref_lib_def ref_fmt_fixed_def pad_def Let_def del: show_nat.simps)
  have o: "ok (allowed ''RG_DISABLED'' (postsize_meta ''FTSE 100'' 40))"
    by (simp add: allowed_def)
  have n: "signal_name BUY = ''BUY''" "rr demo_settings * 8 = 16"
    by (simp_all add: signal_name_def demo_settings_def)
  note T = stop_raised_to_market_minimum[where L = ref_lib and W = demo_world
      and S = demo_settings and cfg = demo_cfg and st = fresh_state and item = "ftse_item 5"
      and name = "''FTSE 100''" and epic = "''IX.D.FTSE.CFD.IP''" and stop = 5
      and ?rg1.0 = "allowed ''RG_DISABLED'' []" and mk = ftse_market and vpp = 10
      and min_stop = 8 and ms = "(1 / 2, 1 / 2)" and ccy = "JStr ''GBP''"
      and C = "ftse_ctx 5 8" and sz = "1 / 2" and raw = "5 / 8" and ?st1.0 = fresh_state
      and ?rg2.0 = "allowed ''RG_DISABLED'' (postsize_meta ''FTSE 100'' 40)"
      and bf' = None and sig = BUY and sm = no_sentiment and n = 30]
  from T[OF 1 2 3 4 5 6 7 8 9 10 11 12 13 14 15 16] o n f
  show ?thesis by simp
qed

subsection \<open>Reconciliation of sent orders\<close>











end
